theory Spec2Isabelle
  imports Complex_Main
begin

section \<open>Python values\<close>

text \<open>
  A Python \<open>str\<close> is a sequence of Unicode code points, so a character is a natural
  number and \<open>lit\<close> turns an ASCII literal of the source into such a string.
  Exceptions are values: every function that can raise returns \<open>exn + 'a\<close>,
  with \<open>Inl\<close> the exception that leaves the function.
\<close>

type_synonym pychar = nat
type_synonym pystr = "pychar list"

definition lit :: "string \<Rightarrow> pystr" where
  "lit s = map of_char s"

datatype exn =
    AttributeError | TypeError | IndexError | ValueError
  | UnicodeDecodeError | DecimalOverflow | FeatureNotFound

text \<open>\<^verbatim>\<open>s.startswith(p)\<close>, \<^verbatim>\<open>sub in s\<close> and \<^verbatim>\<open>s.isascii()\<close>.\<close>

definition startswith :: "pystr \<Rightarrow> pystr \<Rightarrow> bool" where
  "startswith s p = (take (length p) s = p)"

fun str_in :: "pystr \<Rightarrow> pystr \<Rightarrow> bool" where
  "str_in sub [] = (sub = [])"
| "str_in sub (c # cs) = (startswith (c # cs) sub \<or> str_in sub cs)"

definition isascii :: "pystr \<Rightarrow> bool" where
  "isascii s = list_all (\<lambda>c. c < 128) s"

text \<open>
  \<^verbatim>\<open>s.split(sep=sep)\<close>: the pieces between the non-overlapping occurrences of the
  separator, scanned from the left; an empty separator raises \<open>ValueError\<close>.
\<close>

function split_from :: "pystr \<Rightarrow> pystr \<Rightarrow> pystr \<Rightarrow> pystr list" where
  "split_from sep acc [] = [rev acc]"
| "split_from sep acc (c # cs) =
     (if sep \<noteq> [] \<and> startswith (c # cs) sep
      then rev acc # split_from sep [] (drop (length sep) (c # cs))
      else split_from sep (c # acc) cs)"
  by pat_completeness auto
termination
  by (relation "measure (\<lambda>(sep, acc, s). length s)") (auto simp: neq_Nil_conv)

definition str_split :: "pystr \<Rightarrow> pystr \<Rightarrow> exn + pystr list" where
  "str_split s sep = (if sep = [] then Inl ValueError else Inr (split_from sep [] s))"

section \<open>Messages and the library\<close>

text \<open>
  A leaf \<^verbatim>\<open>email.message.Message\<close> is seen through the calls the program makes on it:
  \<^verbatim>\<open>msg["Content-Type"]\<close>, \<^verbatim>\<open>msg["Content-Transfer-Encoding"]\<close> (\<open>None\<close> when the header is
  absent), \<^verbatim>\<open>msg.get_content_type()\<close>, \<^verbatim>\<open>msg.get_payload()\<close>,
  \<^verbatim>\<open>msg.get_payload(decode=True)\<close> and \<^verbatim>\<open>msg.as_string()\<close> (which is also \<^verbatim>\<open>str(msg)\<close>).
\<close>

record message =
  header_content_type :: "pystr option"
  header_transfer_encoding :: "pystr option"
  get_content_type :: pystr
  get_payload :: pystr
  get_payload_decoded :: "nat list"
  as_string :: pystr

text \<open>
  The payload of a multipart message is a list whose items are lists or tuples of
  items, multipart messages (\<^verbatim>\<open>is_multipart()\<close> holds, \<^verbatim>\<open>get_payload()\<close> is again such a
  list) or leaf messages.
\<close>

datatype part = Seq "part list" | Multi "part list" | Leaf message

datatype payload = Single pystr | Multipart "part list"

text \<open>What \<^verbatim>\<open>bs4.BeautifulSoup\<close> is given: a \<open>str\<close>, \<open>bytes\<close>, or a message object.\<close>

datatype markup = Text pystr | Bytes "nat list" | Object message

text \<open>A table cell found by \<^verbatim>\<open>soup.find_all\<close>: its \<^verbatim>\<open>contents\<close>, a string or a tag each.\<close>

datatype node = NavigableString pystr | Tag

text \<open>
  The libraries the program calls are parameters of the model: the Unicode classes of the
  \<^verbatim>\<open>regex\<close> module (\<^verbatim>\<open>\p{Sc}\<close>, \<^verbatim>\<open>\d\<close> with the digit's value, \<^verbatim>\<open>\w\<close>, \<^verbatim>\<open>\s\<close>),
  \<^verbatim>\<open>BeautifulSoup(html, "html5lib").prettify()\<close>,
  \<^verbatim>\<open>BeautifulSoup(body, "html5lib").find_all(name="td", text=re_currency_sign)\<close>,
  \<^verbatim>\<open>quopri.decodestring(s).decode("utf-8")\<close>, \<^verbatim>\<open>str.isspace\<close> and \<^verbatim>\<open>html.unescape\<close>.
  The soup of a text is seen through the one query the program makes on it: an exception
  is what the constructor \<^verbatim>\<open>BeautifulSoup(body, "html5lib")\<close> raises, a list is the cells
  that \<^verbatim>\<open>find_all\<close> returns later.
\<close>

record pylib =
  uc_Sc :: "pychar \<Rightarrow> bool"
  uc_digit :: "pychar \<Rightarrow> nat option"
  uc_word :: "pychar \<Rightarrow> bool"
  uc_space :: "pychar \<Rightarrow> bool"
  bs4_prettify :: "markup \<Rightarrow> exn + pystr"
  bs4_find_all_td :: "pystr option \<Rightarrow> exn + node list list"
  quopri_utf8 :: "pystr \<Rightarrow> exn + pystr"
  py_isspace :: "pychar \<Rightarrow> bool"
  html_unescape :: "pystr \<Rightarrow> pystr"

section \<open>The message decoder\<close>

text \<open>\<^verbatim>\<open>get_html_text\<close>: only \<open>AttributeError\<close> is caught.\<close>

definition get_html_text :: "pylib \<Rightarrow> markup \<Rightarrow> exn + pystr option" where
  "get_html_text L html =
     (case bs4_prettify L html of
        Inr pretty \<Rightarrow> Inr (Some pretty)
      | Inl AttributeError \<Rightarrow> Inr None
      | Inl e \<Rightarrow> Inl e)"

text \<open>\<^verbatim>\<open>AbstractEmail._get_email_messages\<close>, the generator read off as the list it yields.\<close>

fun get_email_messages :: "part list \<Rightarrow> message list" where
  "get_email_messages [] = []"
| "get_email_messages (Seq ms # rest) = get_email_messages ms @ get_email_messages rest"
| "get_email_messages (Multi ms # rest) = get_email_messages ms @ get_email_messages rest"
| "get_email_messages (Leaf m # rest) = m # get_email_messages rest"

text \<open>An element of \<^verbatim>\<open>multipart_messages\<close>: the bare string payload, or a leaf message.\<close>

datatype leaf = Str pystr | Msg message

text \<open>\<^verbatim>\<open>AbstractEmail._read_email_text\<close>.\<close>

definition read_email_text :: "pylib \<Rightarrow> leaf \<Rightarrow> exn + (pystr \<times> pystr \<times> pystr option)" where
  "read_email_text L msg =
     (let content_type = (case msg of Str _ \<Rightarrow> lit ''NA'' | Msg m \<Rightarrow> get_content_type m);
          encoding = (case msg of Str _ \<Rightarrow> lit ''NA''
                      | Msg m \<Rightarrow> (case header_transfer_encoding m of
                                    None \<Rightarrow> lit ''NA'' | Some e \<Rightarrow> e))
      in if str_in (lit ''text/plain'') content_type \<and> \<not> str_in (lit ''base64'') encoding then
           (case msg of
              Msg m \<Rightarrow> Inr (content_type, encoding, Some (get_payload m))
            | Str _ \<Rightarrow> Inl AttributeError)
         else if str_in (lit ''text/html'') content_type \<and> \<not> str_in (lit ''base64'') encoding then
           (case msg of
              Msg m \<Rightarrow> map_sum id (\<lambda>t. (content_type, encoding, t))
                         (get_html_text L (Bytes (get_payload_decoded m)))
            | Str _ \<Rightarrow> Inl AttributeError)
         else if content_type = lit ''NA'' then
           map_sum id (\<lambda>t. (content_type, encoding, t))
             (get_html_text L (case msg of Str s \<Rightarrow> Text s | Msg m \<Rightarrow> Object m))
         else Inr (content_type, encoding, None))"

section \<open>Decimal arithmetic\<close>

text \<open>
  A \<^verbatim>\<open>decimal.Decimal\<close> is a coefficient and an exponent; the program only builds
  non-negative finite ones (no pattern captures a sign). Arithmetic runs in the default
  context: precision 28, \<^verbatim>\<open>ROUND_HALF_EVEN\<close>, \<^verbatim>\<open>Emax = 999999\<close>, \<^verbatim>\<open>Emin = -999999\<close>,
  \<^verbatim>\<open>clamp = 0\<close>, with \<^verbatim>\<open>Overflow\<close> trapped (raised) and \<^verbatim>\<open>Inexact\<close>, \<^verbatim>\<open>Rounded\<close>,
  \<^verbatim>\<open>Subnormal\<close>, \<^verbatim>\<open>Underflow\<close> and \<^verbatim>\<open>Clamped\<close> only flagged.
\<close>

record decimal =
  coeff :: nat
  expo :: int

definition Decimal_0 :: decimal where
  "Decimal_0 = \<lparr>coeff = 0, expo = 0\<rparr>"

definition prec :: int where "prec = 28"
definition Emax :: int where "Emax = 999999"
definition Emin :: int where "Emin = - 999999"
definition Etiny :: int where "Etiny = Emin - prec + 1"
definition Etop :: int where "Etop = Emax - prec + 1"

text \<open>\<^verbatim>\<open>len(str(n))\<close>.\<close>

function ndigits :: "nat \<Rightarrow> nat" where
  "ndigits n = (if n < 10 then 1 else Suc (ndigits (n div 10)))"
  by pat_completeness auto
termination
  by (relation "measure id") auto

declare ndigits.simps [simp del]

text \<open>
  \<^verbatim>\<open>Decimal._fix\<close>, the rounding of a result to the context, on the coefficient as a
  number: \<open>k\<close> digits are dropped, \<open>q\<close> is what is kept and \<open>r\<close> what is dropped, and
  half-even rounds up when \<open>r\<close> is above one half of \<open>10 ^ k\<close>, or is one half
  with \<open>q\<close> odd.
\<close>

definition dec_fix :: "decimal \<Rightarrow> exn + decimal" where
  "dec_fix d =
     (if coeff d = 0 then Inr (d\<lparr>expo := min (max (expo d) Etiny) Emax\<rparr>)
      else
        let exp_min0 = int (ndigits (coeff d)) + expo d - prec in
        if exp_min0 > Etop then Inl DecimalOverflow
        else
          let exp_min = (if exp_min0 < Etiny then Etiny else exp_min0) in
          if expo d < exp_min then
            let k = nat (exp_min - expo d);
                q = coeff d div 10 ^ k;
                r = coeff d mod 10 ^ k;
                up = (2 * r > 10 ^ k \<or> (2 * r = 10 ^ k \<and> odd q));
                c1 = (if up then q + 1 else q);
                carry = (up \<and> int (ndigits c1) > prec);
                c2 = (if carry then c1 div 10 else c1);
                e2 = (if carry then exp_min + 1 else exp_min)
            in if e2 > Etop then Inl DecimalOverflow else Inr \<lparr>coeff = c2, expo = e2\<rparr>
          else Inr d)"

text \<open>\<^verbatim>\<open>Decimal._rescale\<close> to an exponent that is not above the number's own: zeros are appended.\<close>

definition rescale :: "decimal \<Rightarrow> int \<Rightarrow> decimal" where
  "rescale d e = \<lparr>coeff = coeff d * 10 ^ nat (expo d - e), expo = e\<rparr>"

text \<open>
  \<^verbatim>\<open>Decimal.__add__\<close> of two non-negative numbers: the exact sum at the smaller exponent
  (a zero operand leaves the other one, rescaled), then \<^verbatim>\<open>_fix\<close>.
\<close>

definition dec_add_exact :: "decimal \<Rightarrow> decimal \<Rightarrow> decimal" where
  "dec_add_exact a b =
     (let e = min (expo a) (expo b) in
      if coeff a = 0 \<and> coeff b = 0 then \<lparr>coeff = 0, expo = e\<rparr>
      else if coeff a = 0 then rescale b (max e (expo b - prec - 1))
      else if coeff b = 0 then rescale a (max e (expo a - prec - 1))
      else \<lparr>coeff = coeff (rescale a e) + coeff (rescale b e), expo = e\<rparr>)"

definition dec_add :: "decimal \<Rightarrow> decimal \<Rightarrow> exn + decimal" where
  "dec_add a b = dec_fix (dec_add_exact a b)"

text \<open>The number a decimal stands for.\<close>

definition dec_value :: "decimal \<Rightarrow> rat" where
  "dec_value d = of_nat (coeff d) * 10 powi expo d"

text \<open>A decimal that \<^verbatim>\<open>_fix\<close> leaves as it is.\<close>

definition dec_fits :: "decimal \<Rightarrow> bool" where
  "dec_fits d = (int (ndigits (coeff d)) \<le> prec \<and> Etiny \<le> expo d \<and> expo d \<le> 0)"

section \<open>The patterns\<close>

text \<open>
  Each compiled pattern is the function that \<^verbatim>\<open>findall\<close> computes with it. The classes
  come from the library; a digit is a word character. The greedy runs are deterministic
  because the Unicode classes are: a digit is never the point, a currency sign is never
  white space, so a shorter run cannot be followed by what the pattern asks for next.
\<close>

definition is_digit :: "pylib \<Rightarrow> pychar \<Rightarrow> bool" where
  "is_digit L c = (uc_digit L c \<noteq> None)"

definition word_char :: "pylib \<Rightarrow> pychar \<Rightarrow> bool" where
  "word_char L c = (uc_word L c \<or> is_digit L c)"

text \<open>\<^verbatim>\<open>\b\<close> after a word character: the end of the string, or a character that is not one.\<close>

definition at_boundary :: "pylib \<Rightarrow> pystr \<Rightarrow> bool" where
  "at_boundary L s = (case s of [] \<Rightarrow> True | c # _ \<Rightarrow> \<not> word_char L c)"

text \<open>
  \<^verbatim>\<open>\d+\.\d+\<close> at the start of a string: the digits before and after the point, and
  the rest. The text that a group \<^verbatim>\<open>(\d+\.\d+)\<close> captures is kept as this pair of digit
  strings.
\<close>

definition number_at :: "pylib \<Rightarrow> pystr \<Rightarrow> (pystr \<times> pystr \<times> pystr) option" where
  "number_at L s =
     (let ip = takeWhile (is_digit L) s in
      case dropWhile (is_digit L) s of
        [] \<Rightarrow> None
      | c # r \<Rightarrow>
          if ip = [] \<or> c \<noteq> 46 then None
          else let fp = takeWhile (is_digit L) r in
               if fp = [] then None else Some (ip, fp, dropWhile (is_digit L) r))"

text \<open>
  \<^verbatim>\<open>findall\<close> of a pattern without anchors: \<open>pat\<close> matches the pattern at the start of
  a suffix and gives the captured groups and the length of the match; the scan goes on
  after a match, and one character further without one.
\<close>

function findall :: "(pystr \<Rightarrow> ('g \<times> nat) option) \<Rightarrow> pystr \<Rightarrow> 'g list" where
  "findall pat [] = []"
| "findall pat (c # cs) =
     (case pat (c # cs) of
        None \<Rightarrow> findall pat cs
      | Some (g, n) \<Rightarrow> g # findall pat (drop (n - 1) cs))"
  by pat_completeness auto
termination
  by (relation "measure (\<lambda>(pat, s). length s)") auto

text \<open>
  \<^verbatim>\<open>decimal.Decimal(s)\<close> of a captured \<^verbatim>\<open>\d+\.\d+\<close>: the digits' values, and one
  negative exponent for each digit after the point. The conversion is exact.
\<close>

definition digits_value :: "pylib \<Rightarrow> pystr \<Rightarrow> nat" where
  "digits_value L ds =
     foldl (\<lambda>acc c. 10 * acc + (case uc_digit L c of Some v \<Rightarrow> v | None \<Rightarrow> 0)) 0 ds"

definition Decimal :: "pylib \<Rightarrow> pystr \<times> pystr \<Rightarrow> decimal" where
  "Decimal L g = \<lparr>coeff = digits_value L (fst g @ snd g), expo = - int (length (snd g))\<rparr>"

text \<open>\<^verbatim>\<open>DoorDashReceipt.regex_total\<close>: \<^verbatim>\<open>^Total Charged \p{Sc}(\d+\.\d+)\b\<close>.\<close>

definition DoorDash_regex_total :: "pylib \<Rightarrow> pystr \<Rightarrow> (pystr \<times> pystr) list" where
  "DoorDash_regex_total L line =
     (if startswith line (lit ''Total Charged '') then
        (case drop 14 line of
           [] \<Rightarrow> []
         | c # r \<Rightarrow>
             if uc_Sc L c then
               (case number_at L r of
                  None \<Rightarrow> []
                | Some (ip, fp, r') \<Rightarrow> if at_boundary L r' then [(ip, fp)] else [])
             else [])
      else [])"

text \<open>
  \<^verbatim>\<open>DoorDashReceipt.regex_order_id\<close>:
  \<^verbatim>\<open><(https\:\/\/www\.doordash\.com\/orders\/(\w{8}\-\w{4}\-\w{4}\-\w{4}\-\w{12}))\/>\<close>.
\<close>

fun word_groups :: "pylib \<Rightarrow> nat list \<Rightarrow> pystr \<Rightarrow> bool" where
  "word_groups L [] s = (s = [])"
| "word_groups L [n] s = (length s = n \<and> list_all (word_char L) s)"
| "word_groups L (n # ns) s =
     (n < length s \<and> list_all (word_char L) (take n s) \<and> s ! n = 45
      \<and> word_groups L ns (drop (Suc n) s))"

definition DoorDash_order_id_at :: "pylib \<Rightarrow> pystr \<Rightarrow> ((pystr \<times> pystr) \<times> nat) option" where
  "DoorDash_order_id_at L s =
     (if startswith s (lit ''<https://www.doordash.com/orders/'') then
        let u = take 36 (drop 33 s)
        in if word_groups L [8, 4, 4, 4, 12] u \<and> startswith (drop 69 s) (lit ''/>'')
           then Some ((lit ''https://www.doordash.com/orders/'' @ u, u), 71) else None
      else None)"

definition DoorDash_regex_order_id :: "pylib \<Rightarrow> pystr \<Rightarrow> (pystr \<times> pystr) list" where
  "DoorDash_regex_order_id L line = findall (DoorDash_order_id_at L) line"

text \<open>\<^verbatim>\<open>DeliverooReceipt.regex_total\<close>: \<^verbatim>\<open>^\s{2}Total\s+\p{Sc}(\d+\.\d+)$\<close>.\<close>

definition Deliveroo_regex_total :: "pylib \<Rightarrow> pystr \<Rightarrow> (pystr \<times> pystr) list" where
  "Deliveroo_regex_total L line =
     (case line of
        a # b # r \<Rightarrow>
          if uc_space L a \<and> uc_space L b \<and> startswith r (lit ''Total'') then
            (case dropWhile (uc_space L) (drop 5 r) of
               [] \<Rightarrow> []
             | c # r' \<Rightarrow>
                 if takeWhile (uc_space L) (drop 5 r) \<noteq> [] \<and> uc_Sc L c then
                   (case number_at L r' of
                      None \<Rightarrow> []
                    | Some (ip, fp, rest) \<Rightarrow>
                        if rest = [] \<or> rest = [10] then [(ip, fp)] else [])
                 else [])
          else []
      | _ \<Rightarrow> [])"

text \<open>\<^verbatim>\<open>DeliverooReceipt.regex_order_id\<close>: \<^verbatim>\<open>Your Receipt for Order \#(\d+)\b\<close>.\<close>

definition Deliveroo_order_id_at :: "pylib \<Rightarrow> pystr \<Rightarrow> (pystr \<times> nat) option" where
  "Deliveroo_order_id_at L s =
     (if startswith s (lit ''Your Receipt for Order #'') then
        let ds = takeWhile (is_digit L) (drop 24 s)
        in if ds \<noteq> [] \<and> at_boundary L (dropWhile (is_digit L) (drop 24 s))
           then Some (ds, 24 + length ds) else None
      else None)"

definition Deliveroo_regex_order_id :: "pylib \<Rightarrow> pystr \<Rightarrow> pystr list" where
  "Deliveroo_regex_order_id L line = findall (Deliveroo_order_id_at L) line"

text \<open>
  \<^verbatim>\<open>DeliverooReceipt.regex_restaurant_name\<close>: \<^verbatim>\<open>^(.*)( has your order!)$\<close>; the point
  matches no line feed, and \<^verbatim>\<open>$\<close> is the end or stands before a last line feed.
\<close>

definition endswith :: "pystr \<Rightarrow> pystr \<Rightarrow> bool" where
  "endswith s p = startswith (rev s) (rev p)"

definition Deliveroo_regex_restaurant_name :: "pystr \<Rightarrow> (pystr \<times> pystr) list" where
  "Deliveroo_regex_restaurant_name line =
     (let suffix = lit '' has your order!'';
          g1 = take (length line - 16) line;
          g2 = take (length line - 17) line
      in if endswith line suffix \<and> 10 \<notin> set g1 then [(g1, suffix)]
         else if endswith line (suffix @ [10]) \<and> 10 \<notin> set g2 then [(g2, suffix)]
         else [])"

text \<open>\<^verbatim>\<open>UberReceipt.re_currency_sign\<close> (\<^verbatim>\<open>regex_total\<close>): \<^verbatim>\<open>\p{Sc}(\d+\.\d+)\b\<close>.\<close>

definition currency_sign_at :: "pylib \<Rightarrow> pystr \<Rightarrow> ((pystr \<times> pystr) \<times> nat) option" where
  "currency_sign_at L s =
     (case s of
        [] \<Rightarrow> None
      | c # r \<Rightarrow>
          if uc_Sc L c then
            (case number_at L r of
               None \<Rightarrow> None
             | Some (ip, fp, r') \<Rightarrow>
                 if at_boundary L r' then Some ((ip, fp), length ip + length fp + 2) else None)
          else None)"

definition re_currency_sign :: "pylib \<Rightarrow> pystr \<Rightarrow> (pystr \<times> pystr) list" where
  "re_currency_sign L s = findall (currency_sign_at L) s"

text \<open>
  \<^verbatim>\<open>UberReceipt.re_restaurant_name\<close>: \<^verbatim>\<open>^\s+You ordered from (.*+)[\r\n|\r|\n]\<close> with
  \<^verbatim>\<open>MULTILINE\<close>. The possessive \<^verbatim>\<open>.*+\<close> takes the rest of the line, so the class after
  it can only match the line feed. Only the first match is used.
\<close>

definition restaurant_name_at :: "pylib \<Rightarrow> pystr \<Rightarrow> pystr option" where
  "restaurant_name_at L s =
     (let r = dropWhile (uc_space L) s; r1 = drop 17 r
      in if takeWhile (uc_space L) s \<noteq> [] \<and> startswith r (lit ''You ordered from '')
            \<and> dropWhile (\<lambda>c. c \<noteq> 10) r1 \<noteq> []
         then Some (takeWhile (\<lambda>c. c \<noteq> 10) r1) else None)"

fun re_restaurant_name :: "pylib \<Rightarrow> bool \<Rightarrow> pystr \<Rightarrow> pystr option" where
  "re_restaurant_name L bol [] = None"
| "re_restaurant_name L bol (c # cs) =
     (case (if bol then restaurant_name_at L (c # cs) else None) of
        Some g \<Rightarrow> Some g
      | None \<Rightarrow> re_restaurant_name L (c = 10) cs)"

text \<open>\<^verbatim>\<open>s.rstrip()\<close>.\<close>

definition rstrip :: "pylib \<Rightarrow> pystr \<Rightarrow> pystr" where
  "rstrip L s = rev (dropWhile (py_isspace L) (rev s))"

section \<open>The normalized email\<close>

text \<open>
  An \<^verbatim>\<open>mboxMessage\<close> with the headers the program reads from it and its payload: one
  string, or the list of a multipart message. \<^verbatim>\<open>AbstractEmail\<close> keeps the message, the
  flattened leaves, the sender and the triples that \<^verbatim>\<open>_read_email_text\<close> gives (its
  \<^verbatim>\<open>body\<close>). The labels, date, receiver and subject are stored and never read again;
  they are left out.
\<close>

record mbox_message =
  header_from :: "pystr option"
  header_encoding :: "pystr option"
  payload :: payload

record abstract_email =
  email_data :: mbox_message
  multipart_messages :: "leaf list"
  sender :: "pystr option"
  body :: "(pystr \<times> pystr \<times> pystr option) list"

text \<open>A list comprehension whose element expression can raise.\<close>

fun map_exn :: "('a \<Rightarrow> exn + 'b) \<Rightarrow> 'a list \<Rightarrow> exn + 'b list" where
  "map_exn f [] = Inr []"
| "map_exn f (x # xs) =
     (case f x of
        Inl e \<Rightarrow> Inl e
      | Inr y \<Rightarrow> (case map_exn f xs of Inl e \<Rightarrow> Inl e | Inr ys \<Rightarrow> Inr (y # ys)))"

definition AbstractEmail :: "pylib \<Rightarrow> mbox_message \<Rightarrow> exn + abstract_email" where
  "AbstractEmail L email =
     (let leaves = (case payload email of
                      Multipart email_payload \<Rightarrow> map Msg (get_email_messages email_payload)
                    | Single email_payload \<Rightarrow> [Str email_payload])
      in case map_exn (read_email_text L) leaves of
           Inl e \<Rightarrow> Inl e
         | Inr texts \<Rightarrow>
             Inr \<lparr>email_data = email, multipart_messages = leaves,
                  sender = header_from email, body = texts\<rparr>)"

section \<open>Receipts\<close>

text \<open>
  The three receipt classes have the same attributes but for \<^verbatim>\<open>url\<close> (DoorDash),
  \<^verbatim>\<open>line_seperator\<close> (DoorDash, Deliveroo) and \<^verbatim>\<open>soup\<close> (Uber Eats); one record with
  the provider holds them. \<^verbatim>\<open>body\<close> is a message for DoorDash and Deliveroo
  (\<open>body_message\<close>) and the first part's text for Uber Eats (\<open>body_text\<close>); the soup is
  seen through the one query made on it. \<^verbatim>\<open>cost_total\<close> is called \<^verbatim>\<open>amount\<close> in
  \<^verbatim>\<open>takeout_calc/parse.py\<close>. The class attributes are immutable defaults that the first
  assignment through \<^verbatim>\<open>self\<close> shadows, so every receipt starts from \<open>new_receipt\<close>.
\<close>

datatype provider = Uber_Eats | DoorDash | Deliveroo

record receipt =
  provider :: provider
  body_message :: "message option"
  body_text :: "pystr option"
  body_as_str :: "pystr option"
  line_seperator :: pystr
  order_id :: pystr
  url :: pystr
  cost_total :: decimal
  restaurant :: pystr
  soup :: "node list list"

definition new_receipt :: "provider \<Rightarrow> receipt" where
  "new_receipt p =
     \<lparr>provider = p, body_message = None, body_text = None, body_as_str = None,
      line_seperator = [10], order_id = lit ''Unknown'', url = lit ''Unknown'',
      cost_total = Decimal_0, restaurant = lit ''Unknown'', soup = []\<rparr>"

text \<open>What the program prints.\<close>

datatype notice =
    Unable_to_find_total | Unknown_delivery_service | DoorDash_not_implemented
  | TODO_parse_restaurant | Parsing nat nat | Adding decimal decimal pystr pystr
  | Sum decimal

subsection \<open>DoorDash\<close>

text \<open>
  The loop of \<^verbatim>\<open>DoorDashReceipt.__init__\<close>. Subscripting a bare string payload with a
  header name raises \<open>TypeError\<close>; \<^verbatim>\<open>startswith\<close> on the \<open>None\<close> of an absent header
  raises \<open>AttributeError\<close>.
\<close>

fun DoorDash_init_loop :: "pylib \<Rightarrow> receipt \<Rightarrow> leaf list \<Rightarrow> exn + receipt" where
  "DoorDash_init_loop L r [] = Inr r"
| "DoorDash_init_loop L r (Str s # rest) = Inl TypeError"
| "DoorDash_init_loop L r (Msg message # rest) =
     (case header_content_type message of
        None \<Rightarrow> Inl AttributeError
      | Some content_type \<Rightarrow>
          if startswith content_type (lit ''text/plain'') then
            (case header_transfer_encoding message of
               None \<Rightarrow> Inl AttributeError
             | Some encoding \<Rightarrow>
                 if startswith encoding (lit ''quoted-printable'') then
                   (case quopri_utf8 L (as_string message) of
                      Inl e \<Rightarrow> Inl e
                    | Inr decoded \<Rightarrow>
                        DoorDash_init_loop L
                          (r\<lparr>body_message := Some message, body_as_str := Some decoded\<rparr>) rest)
                 else
                   DoorDash_init_loop L
                     (r\<lparr>body_message := Some message,
                        body_as_str := Some (as_string message)\<rparr>) rest)
          else DoorDash_init_loop L r rest)"

definition DoorDashReceipt :: "pylib \<Rightarrow> abstract_email \<Rightarrow> exn + receipt" where
  "DoorDashReceipt L email = DoorDash_init_loop L (new_receipt DoorDash) (multipart_messages email)"

definition DoorDash_parse_amount :: "pylib \<Rightarrow> receipt \<Rightarrow> pystr \<Rightarrow> exn + receipt" where
  "DoorDash_parse_amount L r line =
     (case DoorDash_regex_total L line of
        [] \<Rightarrow> Inr r
      | g # _ \<Rightarrow> map_sum id (\<lambda>t. r\<lparr>cost_total := t\<rparr>) (dec_add (cost_total r) (Decimal L g)))"

definition DoorDash_parse_order_id :: "pylib \<Rightarrow> receipt \<Rightarrow> pystr \<Rightarrow> receipt" where
  "DoorDash_parse_order_id L r line =
     (case DoorDash_regex_order_id L line of
        [] \<Rightarrow> r
      | g # _ \<Rightarrow> r\<lparr>url := fst g, order_id := snd g\<rparr>)"

fun DoorDash_parse_lines :: "pylib \<Rightarrow> receipt \<Rightarrow> pystr list \<Rightarrow> exn + receipt" where
  "DoorDash_parse_lines L r [] = Inr r"
| "DoorDash_parse_lines L r (line # rest) =
     (case DoorDash_parse_amount L r line of
        Inl e \<Rightarrow> Inl e
      | Inr r1 \<Rightarrow> DoorDash_parse_lines L (DoorDash_parse_order_id L r1 line) rest)"

definition DoorDash_parse :: "pylib \<Rightarrow> receipt \<Rightarrow> exn + receipt" where
  "DoorDash_parse L r =
     (case body_as_str r of
        None \<Rightarrow> Inl AttributeError
      | Some text \<Rightarrow>
          (case str_split text (line_seperator r) of
             Inl e \<Rightarrow> Inl e
           | Inr lines \<Rightarrow> DoorDash_parse_lines L r lines))"

subsection \<open>Deliveroo\<close>

fun Deliveroo_init_loop :: "pylib \<Rightarrow> receipt \<Rightarrow> leaf list \<Rightarrow> exn + receipt" where
  "Deliveroo_init_loop L r [] = Inr r"
| "Deliveroo_init_loop L r (Str s # rest) = Inl TypeError"
| "Deliveroo_init_loop L r (Msg message # rest) =
     (case header_content_type message of
        None \<Rightarrow> Inl AttributeError
      | Some content_type \<Rightarrow>
          if startswith content_type (lit ''text/plain'') then
            (case header_transfer_encoding message of
               None \<Rightarrow> Inl AttributeError
             | Some encoding \<Rightarrow>
                 if startswith encoding (lit ''quoted-printable'') then
                   (case quopri_utf8 L (as_string message) of
                      Inl e \<Rightarrow> Inl e
                    | Inr decoded \<Rightarrow>
                        Deliveroo_init_loop L
                          (r\<lparr>body_message := Some message, body_as_str := Some decoded,
                             line_seperator :=
                               (if \<not> isascii decoded then [13, 10] else line_seperator r)\<rparr>)
                          rest)
                 else
                   Deliveroo_init_loop L
                     (r\<lparr>body_message := Some message,
                        body_as_str := Some (as_string message)\<rparr>) rest)
          else Deliveroo_init_loop L r rest)"

definition DeliverooReceipt :: "pylib \<Rightarrow> abstract_email \<Rightarrow> exn + receipt" where
  "DeliverooReceipt L email =
     Deliveroo_init_loop L (new_receipt Deliveroo) (multipart_messages email)"

definition Deliveroo_parse_amount :: "pylib \<Rightarrow> receipt \<Rightarrow> pystr \<Rightarrow> exn + receipt" where
  "Deliveroo_parse_amount L r line =
     (case Deliveroo_regex_total L line of
        [] \<Rightarrow> Inr r
      | g # _ \<Rightarrow> map_sum id (\<lambda>t. r\<lparr>cost_total := t\<rparr>) (dec_add (cost_total r) (Decimal L g)))"

definition Deliveroo_parse_restaurant :: "receipt \<Rightarrow> pystr \<Rightarrow> receipt" where
  "Deliveroo_parse_restaurant r line =
     (case Deliveroo_regex_restaurant_name line of
        [] \<Rightarrow> r
      | g # _ \<Rightarrow> r\<lparr>restaurant := fst g\<rparr>)"

definition Deliveroo_parse_order_id :: "pylib \<Rightarrow> receipt \<Rightarrow> pystr \<Rightarrow> receipt" where
  "Deliveroo_parse_order_id L r line =
     (case Deliveroo_regex_order_id L line of
        [] \<Rightarrow> r
      | g # _ \<Rightarrow> r\<lparr>order_id := g\<rparr>)"

fun Deliveroo_parse_lines :: "pylib \<Rightarrow> receipt \<Rightarrow> pystr list \<Rightarrow> exn + receipt" where
  "Deliveroo_parse_lines L r [] = Inr r"
| "Deliveroo_parse_lines L r (line # rest) =
     (case Deliveroo_parse_amount L r line of
        Inl e \<Rightarrow> Inl e
      | Inr r1 \<Rightarrow>
          Deliveroo_parse_lines L
            (Deliveroo_parse_order_id L (Deliveroo_parse_restaurant r1 line) line) rest)"

definition Deliveroo_parse :: "pylib \<Rightarrow> receipt \<Rightarrow> exn + receipt" where
  "Deliveroo_parse L r =
     (case body_as_str r of
        None \<Rightarrow> Inl AttributeError
      | Some text \<Rightarrow>
          (case str_split text (line_seperator r) of
             Inl e \<Rightarrow> Inl e
           | Inr lines \<Rightarrow> Deliveroo_parse_lines L r lines))"

subsection \<open>Uber Eats, \<^verbatim>\<open>bak/parse.py\<close>\<close>

text \<open>
  \<^verbatim>\<open>UberReceipt.__init__\<close>: the text of the first part, the soup made from it, and the
  text again with its non-ASCII characters removed and quoted-printable decoded when the
  message's transfer encoding asks for it.
\<close>

definition UberReceipt :: "pylib \<Rightarrow> abstract_email \<Rightarrow> exn + receipt" where
  "UberReceipt L email =
     (case body email of
        [] \<Rightarrow> Inl IndexError
      | (content_type, encoding, text) # _ \<Rightarrow>
          (case bs4_find_all_td L text of
             Inl e \<Rightarrow> Inl e
           | Inr cells \<Rightarrow>
               let r = (new_receipt Uber_Eats)
                         \<lparr>body_text := text, soup := cells, body_as_str := text\<rparr>
               in (case header_encoding (email_data email) of
                     None \<Rightarrow> Inl AttributeError
                   | Some transfer_encoding \<Rightarrow>
                       if startswith transfer_encoding (lit ''quoted-printable'') then
                         (case text of
                            None \<Rightarrow> Inl AttributeError
                          | Some b \<Rightarrow>
                              if \<not> isascii b then
                                (case quopri_utf8 L (filter (\<lambda>c. c < 128) b) of
                                   Inl e \<Rightarrow> Inl e
                                 | Inr decoded \<Rightarrow> Inr (r\<lparr>body_as_str := Some decoded\<rparr>))
                              else Inr r)
                       else Inr r)))"

text \<open>
  \<^verbatim>\<open>UberReceipt.parse_amount\<close>. After the notice the first cell is read whatever the
  number of cells found; \<^verbatim>\<open>search\<close> gives \<open>None\<close> when the cell's first string holds no
  amount.
\<close>

definition UberReceipt_parse_amount :: "pylib \<Rightarrow> receipt \<Rightarrow> notice list \<times> (exn + receipt)" where
  "UberReceipt_parse_amount L r =
     (let amounts_found = soup r;
          out = (if length amounts_found < 1 then [Unable_to_find_total] else [])
      in (out,
          case amounts_found of
            [] \<Rightarrow> Inl IndexError
          | cell # _ \<Rightarrow>
              (case cell of
                 [] \<Rightarrow> Inl IndexError
               | Tag # _ \<Rightarrow> Inl TypeError
               | NavigableString s # _ \<Rightarrow>
                   (case re_currency_sign L s of
                      [] \<Rightarrow> Inl AttributeError
                    | amount # _ \<Rightarrow>
                        map_sum id (\<lambda>t. r\<lparr>cost_total := t\<rparr>)
                          (dec_add (cost_total r) (Decimal L amount))))))"

definition UberReceipt_parse_restaurant :: "pylib \<Rightarrow> receipt \<Rightarrow> exn + receipt" where
  "UberReceipt_parse_restaurant L r =
     (case body_as_str r of
        None \<Rightarrow> Inl TypeError
      | Some text \<Rightarrow>
          (case re_restaurant_name L True text of
             None \<Rightarrow> Inr r
           | Some g \<Rightarrow> Inr (r\<lparr>restaurant := html_unescape L (rstrip L g)\<rparr>)))"

definition UberReceipt_parse :: "pylib \<Rightarrow> receipt \<Rightarrow> notice list \<times> (exn + receipt)" where
  "UberReceipt_parse L r =
     (case UberReceipt_parse_amount L r of
        (out, Inl e) \<Rightarrow> (out, Inl e)
      | (out, Inr r1) \<Rightarrow> (out, UberReceipt_parse_restaurant L r1))"

subsection \<open>Uber Eats, \<^verbatim>\<open>takeout_calc/parse.py\<close>\<close>

definition UberReceipt_min :: "abstract_email \<Rightarrow> exn + receipt" where
  "UberReceipt_min email =
     (case body email of
        [] \<Rightarrow> Inl IndexError
      | (content_type, encoding, text) # _ \<Rightarrow> Inr ((new_receipt Uber_Eats)\<lparr>body_text := text\<rparr>))"

definition UberReceipt_min_parse_amount ::
  "pylib \<Rightarrow> receipt \<Rightarrow> notice list \<times> (exn + receipt)" where
  "UberReceipt_min_parse_amount L r =
     (case body_text r of
        None \<Rightarrow> ([], Inl TypeError)
      | Some text \<Rightarrow>
          let amounts_found = re_currency_sign L text;
              out = (if length amounts_found < 1 then [Unable_to_find_total] else [])
          in (out,
              case amounts_found of
                [] \<Rightarrow> Inl IndexError
              | amount # _ \<Rightarrow>
                  map_sum id (\<lambda>t. r\<lparr>cost_total := t\<rparr>)
                    (dec_add (cost_total r) (Decimal L amount))))"

definition UberReceipt_min_parse :: "pylib \<Rightarrow> receipt \<Rightarrow> notice list \<times> (exn + receipt)" where
  "UberReceipt_min_parse L r =
     (case UberReceipt_min_parse_amount L r of
        (out, Inl e) \<Rightarrow> (out, Inl e)
      | (out, Inr r1) \<Rightarrow>
          (out @ [TODO_parse_restaurant], Inr (r1\<lparr>restaurant := lit ''Unknown''\<rparr>)))"

section \<open>The dispatcher\<close>

text \<open>
  Lines 290 to 298 of \<^verbatim>\<open>bak/parse.py\<close>: the receipt object for an email, or \<open>None\<close>.
  \<^verbatim>\<open>receipt.parse()\<close> is the method of the receipt's class.
\<close>

definition select_receipt :: "pylib \<Rightarrow> abstract_email \<Rightarrow> notice list \<times> (exn + receipt option)" where
  "select_receipt L email =
     (case sender email of
        None \<Rightarrow> ([], Inl AttributeError)
      | Some s \<Rightarrow>
          if str_in (lit ''uber'') s then ([], map_sum id Some (UberReceipt L email))
          else if str_in (lit ''doordash'') s then
            ([], map_sum id Some (DoorDashReceipt L email))
          else if str_in (lit ''deliveroo'') s then
            ([], map_sum id Some (DeliverooReceipt L email))
          else ([Unknown_delivery_service], Inr None))"

definition receipt_parse :: "pylib \<Rightarrow> receipt \<Rightarrow> notice list \<times> (exn + receipt)" where
  "receipt_parse L r =
     (case provider r of
        Uber_Eats \<Rightarrow> UberReceipt_parse L r
      | DoorDash \<Rightarrow> ([], DoorDash_parse L r)
      | Deliveroo \<Rightarrow> ([], Deliveroo_parse L r))"

text \<open>The loop of \<^verbatim>\<open>parse\<close> in \<^verbatim>\<open>bak/parse.py\<close>, and \<^verbatim>\<open>parse\<close>.\<close>

fun parse_loop ::
  "pylib \<Rightarrow> nat \<Rightarrow> nat \<Rightarrow> decimal \<Rightarrow> mbox_message list \<Rightarrow> notice list \<times> (exn + decimal)" where
  "parse_loop L num_entries index tot [] = ([], Inr tot)"
| "parse_loop L num_entries index tot (email_obj # rest) =
     (case AbstractEmail L email_obj of
        Inl e \<Rightarrow> ([], Inl e)
      | Inr email \<Rightarrow>
          (case select_receipt L email of
             (out1, Inl e) \<Rightarrow> (out1, Inl e)
           | (out1, Inr None) \<Rightarrow>
               (case parse_loop L num_entries (Suc index) tot rest of
                  (out, res) \<Rightarrow> (out1 @ out, res))
           | (out1, Inr (Some receipt)) \<Rightarrow>
               (case receipt_parse L receipt of
                  (out2, Inl e) \<Rightarrow> (out1 @ out2, Inl e)
                | (out2, Inr parsed) \<Rightarrow>
                    (case dec_add tot (cost_total parsed) of
                       Inl e \<Rightarrow> (out1 @ out2, Inl e)
                     | Inr tot' \<Rightarrow>
                         (case parse_loop L num_entries (Suc index) tot' rest of
                            (out, res) \<Rightarrow>
                              (out1 @ out2 @
                               [Parsing index num_entries,
                                Adding (cost_total parsed) tot' (restaurant parsed)
                                  (order_id parsed)] @ out,
                               res))))))"

definition parse ::
  "pylib \<Rightarrow> mbox_message list \<Rightarrow> decimal list \<Rightarrow> notice list \<times> (exn + decimal list)" where
  "parse L mbox_file results =
     (case parse_loop L (length mbox_file) 0 Decimal_0 mbox_file of
        (out, res) \<Rightarrow> (out, map_sum id (\<lambda>tot. results @ [tot]) res))"

text \<open>
  The module-level loop of \<^verbatim>\<open>takeout_calc/parse.py\<close>: a DoorDash sender is announced as
  not implemented and gets no receipt.
\<close>

definition select_receipt_min ::
  "pylib \<Rightarrow> abstract_email \<Rightarrow> notice list \<times> (exn + receipt option)" where
  "select_receipt_min L email =
     (case sender email of
        None \<Rightarrow> ([], Inl AttributeError)
      | Some s \<Rightarrow>
          if str_in (lit ''uber'') s then ([], map_sum id Some (UberReceipt_min email))
          else if str_in (lit ''doordash'') s then ([DoorDash_not_implemented], Inr None)
          else if str_in (lit ''deliveroo'') s then
            ([], map_sum id Some (DeliverooReceipt L email))
          else ([Unknown_delivery_service], Inr None))"

definition receipt_parse_min :: "pylib \<Rightarrow> receipt \<Rightarrow> notice list \<times> (exn + receipt)" where
  "receipt_parse_min L r =
     (case provider r of
        Uber_Eats \<Rightarrow> UberReceipt_min_parse L r
      | DoorDash \<Rightarrow> ([], DoorDash_parse L r)
      | Deliveroo \<Rightarrow> ([], Deliveroo_parse L r))"

fun main_loop ::
  "pylib \<Rightarrow> nat \<Rightarrow> nat \<Rightarrow> decimal \<Rightarrow> mbox_message list \<Rightarrow> notice list \<times> (exn + decimal)" where
  "main_loop L num_entries idx tot [] = ([], Inr tot)"
| "main_loop L num_entries idx tot (email_obj # rest) =
     (case AbstractEmail L email_obj of
        Inl e \<Rightarrow> ([], Inl e)
      | Inr email \<Rightarrow>
          (case select_receipt_min L email of
             (out1, Inl e) \<Rightarrow> (out1, Inl e)
           | (out1, Inr None) \<Rightarrow>
               (case main_loop L num_entries (Suc idx) tot rest of
                  (out, res) \<Rightarrow> (out1 @ out, res))
           | (out1, Inr (Some receipt)) \<Rightarrow>
               (case receipt_parse_min L receipt of
                  (out2, Inl e) \<Rightarrow> (out1 @ out2, Inl e)
                | (out2, Inr parsed) \<Rightarrow>
                    (case dec_add tot (cost_total parsed) of
                       Inl e \<Rightarrow> (out1 @ out2, Inl e)
                     | Inr tot' \<Rightarrow>
                         (case main_loop L num_entries (Suc idx) tot' rest of
                            (out, res) \<Rightarrow>
                              (out1 @ out2 @
                               [Parsing idx num_entries,
                                Adding (cost_total parsed) tot' (restaurant parsed)
                                  (order_id parsed)] @ out,
                               res))))))"

definition main :: "pylib \<Rightarrow> mbox_message list \<Rightarrow> notice list \<times> (exn + decimal)" where
  "main L mbox_obj =
     (case main_loop L (length mbox_obj) 0 Decimal_0 mbox_obj of
        (out, Inl e) \<Rightarrow> (out, Inl e)
      | (out, Inr tot) \<Rightarrow> (out @ [Sum tot], Inr tot))"

section \<open>A library for concrete inputs\<close>

text \<open>
  The Unicode classes cut down to ASCII: the dollar is the only currency sign, the digits
  are \<open>0\<close> to \<open>9\<close>, the word characters are the letters, the digits and the underscore,
  and white space is the blank and the controls from tab to carriage return. The other
  library calls raise here: \<^verbatim>\<open>BeautifulSoup\<close> raises \<^verbatim>\<open>bs4.FeatureNotFound\<close> for every
  markup, as it does where the \<^verbatim>\<open>html5lib\<close> tree builder is not installed. An example
  that needs one of the calls to return says what it returns.
\<close>

definition ascii_lib :: pylib where
  "ascii_lib =
     \<lparr>uc_Sc = (\<lambda>c. c = 36),
      uc_digit = (\<lambda>c. if 48 \<le> c \<and> c \<le> 57 then Some (c - 48) else None),
      uc_word = (\<lambda>c. (48 \<le> c \<and> c \<le> 57) \<or> (65 \<le> c \<and> c \<le> 90) \<or> c = 95
                       \<or> (97 \<le> c \<and> c \<le> 122)),
      uc_space = (\<lambda>c. c = 32 \<or> (9 \<le> c \<and> c \<le> 13)),
      bs4_prettify = (\<lambda>h. Inl FeatureNotFound),
      bs4_find_all_td = (\<lambda>t. Inl FeatureNotFound),
      quopri_utf8 = (\<lambda>s. Inl ValueError),
      py_isspace = (\<lambda>c. c = 32 \<or> (9 \<le> c \<and> c \<le> 13)),
      html_unescape = (\<lambda>s. s)\<rparr>"

text \<open>
  A leaf message with the two headers and an ASCII text, for the examples: its payload is
  the text, and its string form is the header lines, an empty line and the text.
\<close>

definition leaf_message :: "string \<Rightarrow> string \<Rightarrow> pystr \<Rightarrow> message" where
  "leaf_message ctype cte text =
     \<lparr>header_content_type = Some (lit ctype), header_transfer_encoding = Some (lit cte),
      get_content_type = lit ctype, get_payload = text, get_payload_decoded = text,
      as_string = lit ''Content-Type: '' @ lit ctype @ [10]
        @ lit ''Content-Transfer-Encoding: '' @ lit cte @ [10, 10] @ text\<rparr>"

text \<open>
  Receipts as the constructors leave them, with a body of two lines: two DoorDash order
  links, two Deliveroo receipt numbers, two DoorDash totals, and two DoorDash totals whose
  sum has 29 digits.
\<close>

definition two_order_ids :: receipt where
  "two_order_ids =
     (new_receipt DoorDash)\<lparr>body_as_str := Some
        (lit ''<https://www.doordash.com/orders/11111111-2222-3333-4444-555555555555/>'' @ [10]
         @ lit ''<https://www.doordash.com/orders/aaaaaaaa-bbbb-cccc-dddd-eeeeeeeeeeee/>'')\<rparr>"

definition two_receipt_numbers :: receipt where
  "two_receipt_numbers =
     (new_receipt Deliveroo)\<lparr>body_as_str := Some
        (lit ''Your Receipt for Order #12'' @ [10] @ lit ''Your Receipt for Order #34'')\<rparr>"

definition two_totals :: receipt where
  "two_totals =
     (new_receipt DoorDash)\<lparr>body_as_str := Some
        (lit ''Total Charged $12.50'' @ [10] @ lit ''Total Charged $1.00'')\<rparr>"

definition long_totals :: receipt where
  "long_totals =
     (new_receipt DoorDash)\<lparr>body_as_str := Some
        (lit ''Total Charged $1234567890123456789012345678.0'' @ [10]
         @ lit ''Total Charged $0.5'')\<rparr>"

text \<open>
  Messages as \<^verbatim>\<open>AbstractEmail\<close> leaves them: a Deliveroo message of one quoted-printable
  \<^verbatim>\<open>text/plain\<close> leaf that holds \<open>Caf=C3=A9\<close>, with a library that decodes it; the same
  leaf in a DoorDash message; a Deliveroo message in which a \<^verbatim>\<open>text/plain\<close> leaf of
  encoding \<open>7bit\<close> follows that leaf; a DoorDash message that is not multipart, so that
  its one part is the bare payload string; a DoorDash message whose one leaf is a PDF; and
  a DoorDash message with two \<^verbatim>\<open>text/plain\<close> leaves around a PDF.
\<close>

definition multipart_email :: "string \<Rightarrow> message list \<Rightarrow> mbox_message" where
  "multipart_email from_addr ms =
     \<lparr>header_from = Some (lit from_addr), header_encoding = None,
      payload = Multipart (map Leaf ms)\<rparr>"

definition cafe_message :: message where
  "cafe_message =
     \<lparr>header_content_type = Some (lit ''text/plain; charset=utf-8''),
      header_transfer_encoding = Some (lit ''quoted-printable''),
      get_content_type = lit ''text/plain'',
      get_payload = lit ''Caf=C3=A9'',
      get_payload_decoded = [67, 97, 102, 195, 169],
      as_string = lit ''Content-Type: text/plain; charset=utf-8'' @ [10]
        @ lit ''Content-Transfer-Encoding: quoted-printable'' @ [10, 10] @ lit ''Caf=C3=A9''\<rparr>"

definition cafe_decoded :: pystr where
  "cafe_decoded = lit ''Content-Type: text/plain; charset=utf-8'' @ [10]
        @ lit ''Content-Transfer-Encoding: quoted-printable'' @ [10, 10] @ lit ''Caf'' @ [233]"

definition cafe_lib :: pylib where
  "cafe_lib =
     ascii_lib\<lparr>quopri_utf8 :=
       (\<lambda>s. if s = as_string cafe_message then Inr cafe_decoded else Inl ValueError)\<rparr>"

definition cafe_email :: abstract_email where
  "cafe_email =
     \<lparr>email_data = multipart_email ''hello@deliveroo.co.uk'' [cafe_message],
      multipart_messages = [Msg cafe_message],
      sender = Some (lit ''hello@deliveroo.co.uk''),
      body = [(lit ''text/plain'', lit ''quoted-printable'', Some (lit ''Caf=C3=A9''))]\<rparr>"

definition cafe_doordash_email :: abstract_email where
  "cafe_doordash_email =
     \<lparr>email_data = multipart_email ''no-reply@doordash.com'' [cafe_message],
      multipart_messages = [Msg cafe_message],
      sender = Some (lit ''no-reply@doordash.com''),
      body = [(lit ''text/plain'', lit ''quoted-printable'', Some (lit ''Caf=C3=A9''))]\<rparr>"

definition cafe_then_plain_email :: abstract_email where
  "cafe_then_plain_email =
     \<lparr>email_data = multipart_email ''hello@deliveroo.co.uk''
                     [cafe_message, leaf_message ''text/plain'' ''7bit'' (lit ''  Total $1.00'')],
      multipart_messages =
        [Msg cafe_message, Msg (leaf_message ''text/plain'' ''7bit'' (lit ''  Total $1.00''))],
      sender = Some (lit ''hello@deliveroo.co.uk''),
      body = [(lit ''text/plain'', lit ''quoted-printable'', Some (lit ''Caf=C3=A9'')),
              (lit ''text/plain'', lit ''7bit'', Some (lit ''  Total $1.00''))]\<rparr>"

definition bare_email :: abstract_email where
  "bare_email =
     \<lparr>email_data = \<lparr>header_from = Some (lit ''no-reply@doordash.com''),
                    header_encoding = Some (lit ''7bit''),
                    payload = Single (lit ''Total Charged $1.00'')\<rparr>,
      multipart_messages = [Str (lit ''Total Charged $1.00'')],
      sender = Some (lit ''no-reply@doordash.com''),
      body = [(lit ''NA'', lit ''NA'', Some (lit ''Total Charged $1.00''))]\<rparr>"

definition pdf_email :: abstract_email where
  "pdf_email =
     \<lparr>email_data = multipart_email ''no-reply@doordash.com''
                     [leaf_message ''application/pdf'' ''base64'' (lit ''JVBERi0='')],
      multipart_messages = [Msg (leaf_message ''application/pdf'' ''base64'' (lit ''JVBERi0=''))],
      sender = Some (lit ''no-reply@doordash.com''),
      body = [(lit ''application/pdf'', lit ''base64'', None)]\<rparr>"

definition two_plain_email :: abstract_email where
  "two_plain_email =
     \<lparr>email_data = multipart_email ''no-reply@doordash.com''
                     [leaf_message ''text/plain'' ''7bit'' (lit ''first''),
                      leaf_message ''application/pdf'' ''base64'' (lit ''JVBERi0=''),
                      leaf_message ''text/plain'' ''7bit'' (lit ''second'')],
      multipart_messages =
        [Msg (leaf_message ''text/plain'' ''7bit'' (lit ''first'')),
         Msg (leaf_message ''application/pdf'' ''base64'' (lit ''JVBERi0='')),
         Msg (leaf_message ''text/plain'' ''7bit'' (lit ''second''))],
      sender = Some (lit ''no-reply@doordash.com''),
      body = [(lit ''text/plain'', lit ''7bit'', Some (lit ''first'')),
              (lit ''application/pdf'', lit ''base64'', None),
              (lit ''text/plain'', lit ''7bit'', Some (lit ''second''))]\<rparr>"

text \<open>
  A message from a sender that is no delivery service, and an Uber Eats message that is
  not multipart and holds no amount, as the mailbox gives it and as \<^verbatim>\<open>AbstractEmail\<close>
  leaves it, with a library that renders its markup and finds no table cell in it.
\<close>

definition unknown_mail :: mbox_message where
  "unknown_mail =
     multipart_email ''someone@example.com''
       [leaf_message ''application/pdf'' ''base64'' (lit ''JVBERi0='')]"

definition thanks_mail :: mbox_message where
  "thanks_mail =
     \<lparr>header_from = Some (lit ''orders@uber.com''), header_encoding = Some (lit ''7bit''),
      payload = Single (lit ''<p>Thanks</p>'')\<rparr>"

definition thanks_lib :: pylib where
  "thanks_lib =
     ascii_lib\<lparr>bs4_prettify := (\<lambda>h. Inr (lit ''<p>Thanks</p>'')),
               bs4_find_all_td := (\<lambda>t. Inr [])\<rparr>"


definition thanks_email :: abstract_email where
  "thanks_email =
     \<lparr>email_data = thanks_mail, multipart_messages = [Str (lit ''<p>Thanks</p>'')],
      sender = Some (lit ''orders@uber.com''),
      body = [(lit ''NA'', lit ''NA'', Some (lit ''<p>Thanks</p>''))]\<rparr>"

section \<open>Notions for the statements\<close>

text \<open>
  What the theorems below compare the program with. A running total through the context:
  each addition is \<open>dec_add\<close>, and the first one that raises ends the sum.
\<close>

fun dec_sum :: "decimal \<Rightarrow> decimal list \<Rightarrow> exn + decimal" where
  "dec_sum acc [] = Inr acc"
| "dec_sum acc (a # as) = (case dec_add acc a of Inl e \<Rightarrow> Inl e | Inr t \<Rightarrow> dec_sum t as)"

text \<open>Every exact running total is a decimal that the context leaves as it is.\<close>

fun exact_totals_fit :: "decimal \<Rightarrow> decimal list \<Rightarrow> bool" where
  "exact_totals_fit acc [] = True"
| "exact_totals_fit acc (a # as) =
     (dec_fits (dec_add_exact acc a) \<and> exact_totals_fit (dec_add_exact acc a) as)"

text \<open>The last element of a list, or a default for the empty list.\<close>

definition last_or :: "'a \<Rightarrow> 'a list \<Rightarrow> 'a" where
  "last_or d xs = (if xs = [] then d else last xs)"

text \<open>
  What the rules capture on the lines of a body, in document order: of each line that
  matches a rule, the first match (\<^verbatim>\<open>search[0]\<close>).
\<close>

definition DoorDash_amounts :: "pylib \<Rightarrow> pystr list \<Rightarrow> decimal list" where
  "DoorDash_amounts L lines =
     concat (map (\<lambda>l. map (Decimal L) (take 1 (DoorDash_regex_total L l))) lines)"

definition DoorDash_order_ids :: "pylib \<Rightarrow> pystr list \<Rightarrow> (pystr \<times> pystr) list" where
  "DoorDash_order_ids L lines = concat (map (\<lambda>l. take 1 (DoorDash_regex_order_id L l)) lines)"

definition Deliveroo_amounts :: "pylib \<Rightarrow> pystr list \<Rightarrow> decimal list" where
  "Deliveroo_amounts L lines =
     concat (map (\<lambda>l. map (Decimal L) (take 1 (Deliveroo_regex_total L l))) lines)"

definition Deliveroo_order_ids :: "pylib \<Rightarrow> pystr list \<Rightarrow> pystr list" where
  "Deliveroo_order_ids L lines = concat (map (\<lambda>l. take 1 (Deliveroo_regex_order_id L l)) lines)"

definition Deliveroo_restaurants :: "pystr list \<Rightarrow> pystr list" where
  "Deliveroo_restaurants lines =
     concat (map (\<lambda>l. map fst (take 1 (Deliveroo_regex_restaurant_name l))) lines)"

text \<open>The lines that \<^verbatim>\<open>parse\<close> scans.\<close>

definition body_lines :: "receipt \<Rightarrow> pystr list" where
  "body_lines r =
     (case body_as_str r of None \<Rightarrow> [] | Some text \<Rightarrow> split_from (line_seperator r) [] text)"

text \<open>
  A leaf whose \<^verbatim>\<open>Content-Type\<close> header starts with \<^verbatim>\<open>text/plain\<close>, the body text that the
  constructors of DoorDash and Deliveroo take from such a leaf, and a leaf whose
  quoted-printable text decodes to something that is not pure ASCII.
\<close>

definition text_plain :: "leaf \<Rightarrow> bool" where
  "text_plain l =
     (case l of
        Str s \<Rightarrow> False
      | Msg m \<Rightarrow> (case header_content_type m of
                    None \<Rightarrow> False
                  | Some content_type \<Rightarrow> startswith content_type (lit ''text/plain'')))"

definition quoted_printable :: "leaf \<Rightarrow> bool" where
  "quoted_printable l =
     (case l of
        Str s \<Rightarrow> False
      | Msg m \<Rightarrow> (case header_transfer_encoding m of
                    None \<Rightarrow> False
                  | Some encoding \<Rightarrow> startswith encoding (lit ''quoted-printable'')))"

definition leaf_text :: "pylib \<Rightarrow> leaf \<Rightarrow> exn + pystr" where
  "leaf_text L l =
     (case l of
        Str s \<Rightarrow> Inl TypeError
      | Msg m \<Rightarrow> (case header_transfer_encoding m of
                    None \<Rightarrow> Inl AttributeError
                  | Some encoding \<Rightarrow>
                      if startswith encoding (lit ''quoted-printable'')
                      then quopri_utf8 L (as_string m) else Inr (as_string m)))"

definition decodes_non_ascii :: "pylib \<Rightarrow> leaf \<Rightarrow> bool" where
  "decodes_non_ascii L l =
     (text_plain l \<and> quoted_printable l
      \<and> (case leaf_text L l of Inl e \<Rightarrow> False | Inr decoded \<Rightarrow> \<not> isascii decoded))"


text \<open>
  A leaf that carries a \<^verbatim>\<open>Content-Type\<close> header, and a leaf that the constructors of
  DoorDash and Deliveroo get past: it carries the header, and its text can be read when
  the header starts with \<^verbatim>\<open>text/plain\<close>.
\<close>

definition has_content_type :: "leaf \<Rightarrow> bool" where
  "has_content_type l =
     (case l of Str s \<Rightarrow> False | Msg m \<Rightarrow> header_content_type m \<noteq> None)"

definition readable :: "pylib \<Rightarrow> leaf \<Rightarrow> bool" where
  "readable L l =
     (has_content_type l
      \<and> (if text_plain l then (case leaf_text L l of Inl e \<Rightarrow> False | Inr t \<Rightarrow> True) else True))"

section \<open>Decimal arithmetic: when the context is exact\<close>

lemma ndigits_eq: "10 ^ k \<le> n \<Longrightarrow> n < 10 ^ Suc k \<Longrightarrow> ndigits n = Suc k"
proof (induction k arbitrary: n)
  case 0
  then show ?case by (simp add: ndigits.simps)
next
  case (Suc k)
  have "10 ^ k \<le> n div 10" "n div 10 < 10 ^ Suc k"
    using Suc.prems by (simp_all add: less_mult_imp_div_less)
  then have "ndigits (n div 10) = Suc k"
    by (rule Suc.IH)
  moreover have "\<not> n < 10"
    using Suc.prems(1) by (metis le_trans not_less one_le_numeral one_le_power power_Suc
        mult.right_neutral mult_le_mono2)
  ultimately show ?case
    by (subst ndigits.simps) simp
qed

lemma dec_fix_fits: "dec_fits d \<Longrightarrow> dec_fix d = Inr d"
  by (auto simp: dec_fits_def dec_fix_def Let_def Etiny_def Etop_def Emax_def Emin_def prec_def)

lemma dec_value_rescale: "e \<le> expo d \<Longrightarrow> dec_value (rescale d e) = dec_value d"
proof -
  assume le: "e \<le> expo d"
  have "(10::rat) powi expo d = 10 powi (int (nat (expo d - e)) + e)"
    using le by simp
  also have "\<dots> = 10 ^ nat (expo d - e) * 10 powi e"
    by (simp only: power_int_add [of "10::rat", simplified] power_int_of_nat)
  finally show ?thesis
    by (simp add: dec_value_def rescale_def)
qed

lemma dec_value_zero: "coeff d = 0 \<Longrightarrow> dec_value d = 0"
  by (simp add: dec_value_def)

lemma dec_value_add_exact: "dec_value (dec_add_exact a b) = dec_value a + dec_value b"
proof -
  let ?e = "min (expo a) (expo b)"
  have ra: "dec_value (rescale a ?e) = dec_value a"
    and rb: "dec_value (rescale b ?e) = dec_value b"
    by (simp_all add: dec_value_rescale)
  have sum: "dec_value \<lparr>coeff = coeff (rescale a ?e) + coeff (rescale b ?e), expo = ?e\<rparr>
      = dec_value (rescale a ?e) + dec_value (rescale b ?e)"
    by (simp add: dec_value_def rescale_def algebra_simps)
  show ?thesis
    using ra rb sum
    by (auto simp: dec_add_exact_def Let_def dec_value_zero dec_value_rescale prec_def)
qed

lemma dec_sum_exact:
  "exact_totals_fit acc as \<Longrightarrow>
     \<exists>t. dec_sum acc as = Inr t \<and> dec_value t = dec_value acc + sum_list (map dec_value as)"
proof (induction as arbitrary: acc)
  case Nil
  then show ?case by simp
next
  case (Cons a as)
  then have fit: "dec_fits (dec_add_exact acc a)"
    and rest: "exact_totals_fit (dec_add_exact acc a) as"
    by simp_all
  have step: "dec_add acc a = Inr (dec_add_exact acc a)"
    using fit by (simp add: dec_add_def dec_fix_fits)
  from Cons.IH [OF rest] obtain t where
    "dec_sum (dec_add_exact acc a) as = Inr t"
    "dec_value t = dec_value (dec_add_exact acc a) + sum_list (map dec_value as)"
    by blast
  then show ?case
    by (simp add: step dec_value_add_exact)
qed

section \<open>The line loops, in closed form\<close>

lemma last_or_simps [simp]:
  "last_or d [] = d" "last_or d (x # xs) = last_or x xs"
  by (simp_all add: last_or_def)

lemma DoorDash_parse_lines_eq:
  "DoorDash_parse_lines L r lines =
     map_sum id
       (\<lambda>t. r\<lparr>url := fst (last_or (url r, order_id r) (DoorDash_order_ids L lines)),
               order_id := snd (last_or (url r, order_id r) (DoorDash_order_ids L lines)),
               cost_total := t\<rparr>)
       (dec_sum (cost_total r) (DoorDash_amounts L lines))"
proof (induction lines arbitrary: r)
  case Nil
  then show ?case by (simp add: DoorDash_amounts_def DoorDash_order_ids_def)
next
  case (Cons line rest)
  show ?case
    by (cases "DoorDash_regex_total L line"; cases "DoorDash_regex_order_id L line";
        cases "dec_add (cost_total r) (Decimal L (hd (DoorDash_regex_total L line)))")
       (simp_all add: Cons.IH DoorDash_parse_amount_def DoorDash_parse_order_id_def
          DoorDash_amounts_def DoorDash_order_ids_def)
qed

lemma Deliveroo_parse_lines_eq:
  "Deliveroo_parse_lines L r lines =
     map_sum id
       (\<lambda>t. r\<lparr>order_id := last_or (order_id r) (Deliveroo_order_ids L lines),
               restaurant := last_or (restaurant r) (Deliveroo_restaurants lines),
               cost_total := t\<rparr>)
       (dec_sum (cost_total r) (Deliveroo_amounts L lines))"
proof (induction lines arbitrary: r)
  case Nil
  then show ?case
    by (simp add: Deliveroo_amounts_def Deliveroo_order_ids_def Deliveroo_restaurants_def)
next
  case (Cons line rest)
  show ?case
    by (cases "Deliveroo_regex_total L line"; cases "Deliveroo_regex_order_id L line";
        cases "Deliveroo_regex_restaurant_name line";
        cases "dec_add (cost_total r) (Decimal L (hd (Deliveroo_regex_total L line)))")
       (simp_all add: Cons.IH Deliveroo_parse_amount_def Deliveroo_parse_order_id_def
          Deliveroo_parse_restaurant_def
          Deliveroo_amounts_def Deliveroo_order_ids_def Deliveroo_restaurants_def)
qed

lemma dec_sum_raises: "dec_sum acc as = Inl e \<Longrightarrow> e = DecimalOverflow"
proof (induction as arbitrary: acc)
  case Nil
  then show ?case by simp
next
  case (Cons a as)
  show ?case
  proof (cases "dec_add acc a")
    case (Inl x)
    then have "x = DecimalOverflow"
      by (auto simp: dec_add_def dec_fix_def Let_def split: if_splits)
    with Cons.prems Inl show ?thesis by simp
  next
    case (Inr t)
    with Cons show ?thesis by simp
  qed
qed

lemma DoorDash_parse_eq:
  "body_as_str r = Some text \<Longrightarrow> line_seperator r \<noteq> [] \<Longrightarrow>
   DoorDash_parse L r = DoorDash_parse_lines L r (body_lines r)"
  by (simp add: DoorDash_parse_def str_split_def body_lines_def)

lemma Deliveroo_parse_eq:
  "body_as_str r = Some text \<Longrightarrow> line_seperator r \<noteq> [] \<Longrightarrow>
   Deliveroo_parse L r = Deliveroo_parse_lines L r (body_lines r)"
  by (simp add: Deliveroo_parse_def str_split_def body_lines_def)

section \<open>Evaluating concrete inputs\<close>

lemmas context_defs = prec_def Emax_def Emin_def Etiny_def Etop_def Decimal_0_def
lemmas decimal_defs = dec_add_def dec_add_exact_def dec_fix_def rescale_def Let_def context_defs
lemmas pattern_defs = DoorDash_regex_total_def DoorDash_regex_order_id_def DoorDash_order_id_at_def
  Deliveroo_regex_total_def Deliveroo_regex_order_id_def Deliveroo_order_id_at_def
  Deliveroo_regex_restaurant_name_def endswith_def
  number_at_def at_boundary_def word_char_def is_digit_def startswith_def lit_def ascii_lib_def
  Decimal_def digits_value_def Let_def

section \<open>Order ids\<close>

text \<open>
  C1, as the program has it. Scanning a body whose text is present, with a separator
  that is not empty: after \<^verbatim>\<open>parse\<close> the DoorDash \<^verbatim>\<open>url\<close> and \<^verbatim>\<open>order_id\<close> are those
  captured on the last line that matches the order-id rule (of that line, its first
  match), and what they were before when no line matches; the same holds for the
  Deliveroo \<^verbatim>\<open>order_id\<close>. Every matching line assigns again. The scan can only fail
  by a decimal overflow of the running total.
\<close>

theorem order_id_last_match_wins:
  assumes "body_as_str r = Some text" and "line_seperator r \<noteq> []"
  shows "(DoorDash_parse L r = Inr r' \<longrightarrow>
            (url r', order_id r')
              = last_or (url r, order_id r) (DoorDash_order_ids L (body_lines r)))
       \<and> (Deliveroo_parse L r = Inr r' \<longrightarrow>
            order_id r' = last_or (order_id r) (Deliveroo_order_ids L (body_lines r)))
       \<and> (DoorDash_parse L r = Inl e \<longrightarrow> e = DecimalOverflow)
       \<and> (Deliveroo_parse L r = Inl e \<longrightarrow> e = DecimalOverflow)"
proof -
  have dd: "DoorDash_parse L r = DoorDash_parse_lines L r (body_lines r)"
    using assms by (rule DoorDash_parse_eq)
  have del: "Deliveroo_parse L r = Deliveroo_parse_lines L r (body_lines r)"
    using assms by (rule Deliveroo_parse_eq)
  show ?thesis
    unfolding dd del DoorDash_parse_lines_eq Deliveroo_parse_lines_eq
    by (cases "dec_sum (cost_total r) (DoorDash_amounts L (body_lines r))";
        cases "dec_sum (cost_total r) (Deliveroo_amounts L (body_lines r))")
       (auto dest: dec_sum_raises)
qed

lemma two_receipt_numbers_lines:
  "body_lines two_receipt_numbers =
     [lit ''Your Receipt for Order #12'', lit ''Your Receipt for Order #34'']"
  by (simp add: body_lines_def two_receipt_numbers_def new_receipt_def lit_def startswith_def)

lemma two_receipt_numbers_matches:
  "Deliveroo_order_ids ascii_lib (body_lines two_receipt_numbers) = [lit ''12'', lit ''34'']"
  by (simp add: two_receipt_numbers_lines Deliveroo_order_ids_def pattern_defs)

lemma two_receipt_numbers_amounts:
  "Deliveroo_amounts ascii_lib (body_lines two_receipt_numbers) = []"
  by (simp add: two_receipt_numbers_lines Deliveroo_amounts_def pattern_defs)

theorem order_id_last_match_wins_witness:
  "body_as_str two_receipt_numbers
     = Some (lit ''Your Receipt for Order #12'' @ [10] @ lit ''Your Receipt for Order #34'')
   \<and> line_seperator two_receipt_numbers \<noteq> []
   \<and> Deliveroo_order_ids ascii_lib (body_lines two_receipt_numbers) = [lit ''12'', lit ''34'']
   \<and> map_sum id order_id (Deliveroo_parse ascii_lib two_receipt_numbers) = Inr (lit ''34'')"
proof -
  have b: "body_as_str two_receipt_numbers
     = Some (lit ''Your Receipt for Order #12'' @ [10] @ lit ''Your Receipt for Order #34'')"
    and s: "line_seperator two_receipt_numbers \<noteq> []"
    by (simp_all add: two_receipt_numbers_def new_receipt_def)
  have "Deliveroo_parse ascii_lib two_receipt_numbers
          = Deliveroo_parse_lines ascii_lib two_receipt_numbers (body_lines two_receipt_numbers)"
    using b s by (rule Deliveroo_parse_eq)
  then obtain r' where r': "Deliveroo_parse ascii_lib two_receipt_numbers = Inr r'"
    by (simp add: Deliveroo_parse_lines_eq two_receipt_numbers_amounts)
  from order_id_last_match_wins [OF b s, of ascii_lib r'] r'
  have "order_id r' = lit ''34''"
    by (simp add: two_receipt_numbers_matches)
  with b s r' show ?thesis
    by (simp add: two_receipt_numbers_matches)
qed

text \<open>
  C1 as stated fails: of two lines with different DoorDash order links, the order id
  after \<^verbatim>\<open>parse\<close> is the one of the second line, not of the first.
\<close>

lemma two_order_ids_lines:
  "body_lines two_order_ids =
     [lit ''<https://www.doordash.com/orders/11111111-2222-3333-4444-555555555555/>'',
      lit ''<https://www.doordash.com/orders/aaaaaaaa-bbbb-cccc-dddd-eeeeeeeeeeee/>'']"
  by (simp add: body_lines_def two_order_ids_def new_receipt_def lit_def startswith_def)

lemma two_order_ids_matches:
  "DoorDash_order_ids ascii_lib (body_lines two_order_ids) =
     [(lit ''https://www.doordash.com/orders/11111111-2222-3333-4444-555555555555'',
       lit ''11111111-2222-3333-4444-555555555555''),
      (lit ''https://www.doordash.com/orders/aaaaaaaa-bbbb-cccc-dddd-eeeeeeeeeeee'',
       lit ''aaaaaaaa-bbbb-cccc-dddd-eeeeeeeeeeee'')]"
  by (simp add: two_order_ids_lines DoorDash_order_ids_def pattern_defs)

lemma two_order_ids_amounts: "DoorDash_amounts ascii_lib (body_lines two_order_ids) = []"
  by (simp add: two_order_ids_lines DoorDash_amounts_def pattern_defs)

theorem order_id_first_match_counterexample:
  "map_sum id order_id (DoorDash_parse ascii_lib two_order_ids)
     = Inr (lit ''aaaaaaaa-bbbb-cccc-dddd-eeeeeeeeeeee'')
   \<and> DoorDash_order_ids ascii_lib (body_lines two_order_ids) =
     [(lit ''https://www.doordash.com/orders/11111111-2222-3333-4444-555555555555'',
       lit ''11111111-2222-3333-4444-555555555555''),
      (lit ''https://www.doordash.com/orders/aaaaaaaa-bbbb-cccc-dddd-eeeeeeeeeeee'',
       lit ''aaaaaaaa-bbbb-cccc-dddd-eeeeeeeeeeee'')]
   \<and> lit ''aaaaaaaa-bbbb-cccc-dddd-eeeeeeeeeeee'' \<noteq> lit ''11111111-2222-3333-4444-555555555555''"
proof -
  have "DoorDash_parse ascii_lib two_order_ids
          = DoorDash_parse_lines ascii_lib two_order_ids (body_lines two_order_ids)"
    by (rule DoorDash_parse_eq) (simp_all add: two_order_ids_def new_receipt_def)
  then have "map_sum id order_id (DoorDash_parse ascii_lib two_order_ids)
     = Inr (lit ''aaaaaaaa-bbbb-cccc-dddd-eeeeeeeeeeee'')"
    by (simp add: DoorDash_parse_lines_eq two_order_ids_matches two_order_ids_amounts)
  then show ?thesis
    by (simp add: two_order_ids_matches) (simp add: lit_def)
qed

section \<open>Totals\<close>

text \<open>
  C3, as the program has it. The total after \<^verbatim>\<open>parse\<close> is the running sum, in the
  decimal context, of the amounts captured on the matching lines in document order,
  added to the total before: nothing is overwritten. It is their exact sum when every
  exact running total fits the context (at most 28 digits, an exponent of at least
  \<open>Etiny\<close>), and then \<^verbatim>\<open>parse\<close> returns.
\<close>

theorem cost_total_accumulates:
  assumes "body_as_str r = Some text" and "line_seperator r \<noteq> []"
  shows "map_sum id cost_total (DoorDash_parse L r)
           = dec_sum (cost_total r) (DoorDash_amounts L (body_lines r))
       \<and> map_sum id cost_total (Deliveroo_parse L r)
           = dec_sum (cost_total r) (Deliveroo_amounts L (body_lines r))
       \<and> (exact_totals_fit (cost_total r) (DoorDash_amounts L (body_lines r)) \<longrightarrow>
            (\<exists>r'. DoorDash_parse L r = Inr r'
                \<and> dec_value (cost_total r')
                    = dec_value (cost_total r)
                      + sum_list (map dec_value (DoorDash_amounts L (body_lines r)))))
       \<and> (exact_totals_fit (cost_total r) (Deliveroo_amounts L (body_lines r)) \<longrightarrow>
            (\<exists>r'. Deliveroo_parse L r = Inr r'
                \<and> dec_value (cost_total r')
                    = dec_value (cost_total r)
                      + sum_list (map dec_value (Deliveroo_amounts L (body_lines r)))))"
proof -
  have dd: "DoorDash_parse L r = DoorDash_parse_lines L r (body_lines r)"
    using assms by (rule DoorDash_parse_eq)
  have del: "Deliveroo_parse L r = Deliveroo_parse_lines L r (body_lines r)"
    using assms by (rule Deliveroo_parse_eq)
  have a: "map_sum id cost_total (DoorDash_parse L r)
           = dec_sum (cost_total r) (DoorDash_amounts L (body_lines r))"
    unfolding dd DoorDash_parse_lines_eq
    by (cases "dec_sum (cost_total r) (DoorDash_amounts L (body_lines r))") simp_all
  have b: "map_sum id cost_total (Deliveroo_parse L r)
           = dec_sum (cost_total r) (Deliveroo_amounts L (body_lines r))"
    unfolding del Deliveroo_parse_lines_eq
    by (cases "dec_sum (cost_total r) (Deliveroo_amounts L (body_lines r))") simp_all
  have c: "\<exists>r'. DoorDash_parse L r = Inr r'
                \<and> dec_value (cost_total r')
                    = dec_value (cost_total r)
                      + sum_list (map dec_value (DoorDash_amounts L (body_lines r)))"
    if "exact_totals_fit (cost_total r) (DoorDash_amounts L (body_lines r))"
    using dec_sum_exact [OF that] unfolding dd DoorDash_parse_lines_eq by auto
  have d: "\<exists>r'. Deliveroo_parse L r = Inr r'
                \<and> dec_value (cost_total r')
                    = dec_value (cost_total r)
                      + sum_list (map dec_value (Deliveroo_amounts L (body_lines r)))"
    if "exact_totals_fit (cost_total r) (Deliveroo_amounts L (body_lines r))"
    using dec_sum_exact [OF that] unfolding del Deliveroo_parse_lines_eq by auto
  from a b c d show ?thesis by blast
qed
lemma two_totals_lines:
  "body_lines two_totals = [lit ''Total Charged $12.50'', lit ''Total Charged $1.00'']"
  by (simp add: body_lines_def two_totals_def new_receipt_def lit_def startswith_def)

lemma two_totals_amounts:
  "DoorDash_amounts ascii_lib (body_lines two_totals)
     = [\<lparr>coeff = 1250, expo = - 2\<rparr>, \<lparr>coeff = 100, expo = - 2\<rparr>]"
  by (simp add: two_totals_lines DoorDash_amounts_def pattern_defs)

lemma two_totals_fit:
  "exact_totals_fit Decimal_0 [\<lparr>coeff = 1250, expo = - 2\<rparr>, \<lparr>coeff = 100, expo = - 2\<rparr>]"
  by (simp add: dec_fits_def dec_add_exact_def rescale_def Let_def context_defs ndigits.simps)

theorem cost_total_accumulates_witness:
  "body_as_str two_totals = Some (lit ''Total Charged $12.50'' @ [10] @ lit ''Total Charged $1.00'')
   \<and> line_seperator two_totals \<noteq> []
   \<and> exact_totals_fit (cost_total two_totals) (DoorDash_amounts ascii_lib (body_lines two_totals))
   \<and> (\<exists>r'. DoorDash_parse ascii_lib two_totals = Inr r' \<and> dec_value (cost_total r') = 27 / 2)"
proof -
  have b: "body_as_str two_totals
     = Some (lit ''Total Charged $12.50'' @ [10] @ lit ''Total Charged $1.00'')"
    and s: "line_seperator two_totals \<noteq> []"
    and c: "cost_total two_totals = Decimal_0"
    by (simp_all add: two_totals_def new_receipt_def)
  have f: "exact_totals_fit (cost_total two_totals)
             (DoorDash_amounts ascii_lib (body_lines two_totals))"
    by (simp only: c two_totals_amounts two_totals_fit)
  from cost_total_accumulates [OF b s, of ascii_lib] f
  obtain r' where "DoorDash_parse ascii_lib two_totals = Inr r'"
    and "dec_value (cost_total r')
           = dec_value (cost_total two_totals)
             + sum_list (map dec_value (DoorDash_amounts ascii_lib (body_lines two_totals)))"
    by blast
  then have "DoorDash_parse ascii_lib two_totals = Inr r' \<and> dec_value (cost_total r') = 27 / 2"
    by (simp add: c two_totals_amounts dec_value_def Decimal_0_def power_int_minus)
  with b s f show ?thesis by blast
qed

text \<open>
  C3 as stated fails: the totals \<open>1234567890123456789012345678.0\<close> and \<open>0.5\<close> add up
  to \<open>1234567890123456789012345678\<close>, the sum rounded half-even to 28 digits.
\<close>

lemma long_totals_lines:
  "body_lines long_totals
     = [lit ''Total Charged $1234567890123456789012345678.0'', lit ''Total Charged $0.5'']"
  by (simp add: body_lines_def long_totals_def new_receipt_def lit_def startswith_def)

lemma long_totals_amounts:
  "DoorDash_amounts ascii_lib (body_lines long_totals)
     = [\<lparr>coeff = 12345678901234567890123456780, expo = - 1\<rparr>, \<lparr>coeff = 5, expo = - 1\<rparr>]"
  by (simp add: long_totals_lines DoorDash_amounts_def pattern_defs)

lemma long_totals_sum:
  "dec_sum Decimal_0 [\<lparr>coeff = 12345678901234567890123456780, expo = - 1\<rparr>, \<lparr>coeff = 5, expo = - 1\<rparr>]
     = Inr \<lparr>coeff = 1234567890123456789012345678, expo = 0\<rparr>"
proof -
  have n1: "ndigits 12345678901234567890123456780 = 29"
    by (rule ndigits_eq [of 28, simplified]) simp_all
  have n2: "ndigits 12345678901234567890123456785 = 29"
    by (rule ndigits_eq [of 28, simplified]) simp_all
  have n3: "ndigits 5 = 1"
    by (simp add: ndigits.simps)
  have s1: "dec_add Decimal_0 \<lparr>coeff = 12345678901234567890123456780, expo = - 1\<rparr>
              = Inr \<lparr>coeff = 1234567890123456789012345678, expo = 0\<rparr>"
    by (simp add: decimal_defs n1)
  have s2: "dec_add \<lparr>coeff = 1234567890123456789012345678, expo = 0\<rparr> \<lparr>coeff = 5, expo = - 1\<rparr>
              = Inr \<lparr>coeff = 1234567890123456789012345678, expo = 0\<rparr>"
    by (simp add: decimal_defs n2)
  show ?thesis
    by (simp add: s1 s2)
qed

theorem cost_total_exact_counterexample:
  "map_sum id cost_total (DoorDash_parse ascii_lib long_totals)
     = Inr \<lparr>coeff = 1234567890123456789012345678, expo = 0\<rparr>
   \<and> DoorDash_amounts ascii_lib (body_lines long_totals)
     = [\<lparr>coeff = 12345678901234567890123456780, expo = - 1\<rparr>, \<lparr>coeff = 5, expo = - 1\<rparr>]
   \<and> dec_value \<lparr>coeff = 1234567890123456789012345678, expo = 0\<rparr>
     \<noteq> dec_value \<lparr>coeff = 12345678901234567890123456780, expo = - 1\<rparr>
       + dec_value \<lparr>coeff = 5, expo = - 1\<rparr>"
proof -
  have "DoorDash_parse ascii_lib long_totals
          = DoorDash_parse_lines ascii_lib long_totals (body_lines long_totals)"
    by (rule DoorDash_parse_eq) (simp_all add: long_totals_def new_receipt_def)
  moreover have "cost_total long_totals = Decimal_0"
    by (simp add: long_totals_def new_receipt_def)
  then have "dec_sum (cost_total long_totals) (DoorDash_amounts ascii_lib (body_lines long_totals))
     = Inr \<lparr>coeff = 1234567890123456789012345678, expo = 0\<rparr>"
    by (simp only: long_totals_amounts long_totals_sum)
  ultimately have "map_sum id cost_total (DoorDash_parse ascii_lib long_totals)
     = Inr \<lparr>coeff = 1234567890123456789012345678, expo = 0\<rparr>"
    by (simp add: DoorDash_parse_lines_eq)
  moreover have "dec_value \<lparr>coeff = 1234567890123456789012345678, expo = 0\<rparr>
     \<noteq> dec_value \<lparr>coeff = 12345678901234567890123456780, expo = - 1\<rparr>
       + dec_value \<lparr>coeff = 5, expo = - 1\<rparr>"
    by (simp add: dec_value_def power_int_minus)
  ultimately show ?thesis
    by (simp add: long_totals_amounts)
qed
section \<open>The example messages are normalized messages\<close>


lemma more_normalized_examples:
  "AbstractEmail cafe_lib (email_data cafe_doordash_email) = Inr cafe_doordash_email"
  "AbstractEmail cafe_lib (email_data cafe_then_plain_email) = Inr cafe_then_plain_email"
  by (simp_all add: AbstractEmail_def multipart_email_def cafe_doordash_email_def
        cafe_then_plain_email_def read_email_text_def cafe_message_def leaf_message_def
        lit_def startswith_def Let_def)

lemma bare_email_normalized:
  "AbstractEmail (ascii_lib\<lparr>bs4_prettify := (\<lambda>h. Inr (lit ''Total Charged $1.00''))\<rparr>)
     (email_data bare_email) = Inr bare_email"
  by (simp add: AbstractEmail_def bare_email_def read_email_text_def get_html_text_def
        lit_def startswith_def Let_def)

section \<open>The constructors of DoorDash and Deliveroo\<close>

lemma DoorDash_init_loop_Inr:
  "DoorDash_init_loop L r ls = Inr r' \<Longrightarrow>
     line_seperator r' = line_seperator r \<and> provider r' = provider r
     \<and> cost_total r' = cost_total r \<and> order_id r' = order_id r
     \<and> map_option Inr (body_as_str r')
         = last_or (map_option Inr (body_as_str r))
             (map (\<lambda>l. Some (leaf_text L l)) (filter text_plain ls))"
  by (induction L r ls rule: DoorDash_init_loop.induct)
     (auto simp: text_plain_def leaf_text_def split: option.splits if_splits sum.splits)

lemma Deliveroo_init_loop_Inr:
  "Deliveroo_init_loop L r ls = Inr r' \<Longrightarrow>
     line_seperator r'
       = (if list_ex (decodes_non_ascii L) ls then [13, 10] else line_seperator r)
     \<and> provider r' = provider r
     \<and> cost_total r' = cost_total r \<and> order_id r' = order_id r
     \<and> map_option Inr (body_as_str r')
         = last_or (map_option Inr (body_as_str r))
             (map (\<lambda>l. Some (leaf_text L l)) (filter text_plain ls))"
  by (induction L r ls rule: Deliveroo_init_loop.induct)
     (auto simp: text_plain_def leaf_text_def decodes_non_ascii_def quoted_printable_def
           split: option.splits if_splits sum.splits)

lemma DoorDash_init_loop_returns:
  "list_all (readable L) ls \<Longrightarrow> \<exists>r'. DoorDash_init_loop L r ls = Inr r'"
  by (induction L r ls rule: DoorDash_init_loop.induct)
     (auto simp: readable_def has_content_type_def text_plain_def leaf_text_def
           split: option.splits if_splits sum.splits)

lemma Deliveroo_init_loop_returns:
  "list_all (readable L) ls \<Longrightarrow> \<exists>r'. Deliveroo_init_loop L r ls = Inr r'"
  by (induction L r ls rule: Deliveroo_init_loop.induct)
     (auto simp: readable_def has_content_type_def text_plain_def leaf_text_def
           split: option.splits if_splits sum.splits)

lemma DoorDash_init_loop_no_text_plain:
  "list_all has_content_type ls \<Longrightarrow> \<not> list_ex text_plain ls \<Longrightarrow>
   DoorDash_init_loop L r ls = Inr r"
  by (induction L r ls rule: DoorDash_init_loop.induct)
     (auto simp: has_content_type_def text_plain_def split: option.splits)

lemma Deliveroo_init_loop_no_text_plain:
  "list_all has_content_type ls \<Longrightarrow> \<not> list_ex text_plain ls \<Longrightarrow>
   Deliveroo_init_loop L r ls = Inr r"
  by (induction L r ls rule: Deliveroo_init_loop.induct)
     (auto simp: has_content_type_def text_plain_def split: option.splits)

lemma DoorDash_init_loop_raises:
  "\<not> list_ex text_plain ls \<Longrightarrow> \<not> list_all has_content_type ls \<Longrightarrow>
   DoorDash_init_loop L r ls = Inl TypeError \<or> DoorDash_init_loop L r ls = Inl AttributeError"
  by (induction L r ls rule: DoorDash_init_loop.induct)
     (auto simp: has_content_type_def text_plain_def split: option.splits)

lemma Deliveroo_init_loop_raises:
  "\<not> list_ex text_plain ls \<Longrightarrow> \<not> list_all has_content_type ls \<Longrightarrow>
   Deliveroo_init_loop L r ls = Inl TypeError \<or> Deliveroo_init_loop L r ls = Inl AttributeError"
  by (induction L r ls rule: Deliveroo_init_loop.induct)
     (auto simp: has_content_type_def text_plain_def split: option.splits)

lemma filter_none: "\<not> list_ex P xs \<Longrightarrow> filter P xs = []"
  by (induction xs) auto

text \<open>
  C10. When the constructor returns, the body text is the text of the last leaf, in
  traversal order, whose \<^verbatim>\<open>Content-Type\<close> starts with \<^verbatim>\<open>text/plain\<close>: the decoded text
  of that leaf alone when it is quoted-printable, its string form otherwise, and \<open>None\<close>
  when there is no such leaf. The constructor returns when every leaf carries a
  \<^verbatim>\<open>Content-Type\<close> header and the text of every \<^verbatim>\<open>text/plain\<close> leaf can be read.
\<close>

theorem last_text_plain_part_is_body:
  "(DoorDashReceipt L email = Inr r \<longrightarrow>
      map_option Inr (body_as_str r)
        = last_or None (map (\<lambda>l. Some (leaf_text L l))
                          (filter text_plain (multipart_messages email))))
   \<and> (DeliverooReceipt L email = Inr r \<longrightarrow>
      map_option Inr (body_as_str r)
        = last_or None (map (\<lambda>l. Some (leaf_text L l))
                          (filter text_plain (multipart_messages email))))
   \<and> (list_all (readable L) (multipart_messages email) \<longrightarrow>
        (\<exists>r'. DoorDashReceipt L email = Inr r') \<and> (\<exists>r'. DeliverooReceipt L email = Inr r'))"
  using DoorDash_init_loop_Inr [of L "new_receipt DoorDash" "multipart_messages email" r]
    Deliveroo_init_loop_Inr [of L "new_receipt Deliveroo" "multipart_messages email" r]
    DoorDash_init_loop_returns [of L "multipart_messages email" "new_receipt DoorDash"]
    Deliveroo_init_loop_returns [of L "multipart_messages email" "new_receipt Deliveroo"]
  by (simp add: DoorDashReceipt_def DeliverooReceipt_def new_receipt_def)

theorem last_text_plain_part_is_body_witness:
  "list_all (readable ascii_lib) (multipart_messages two_plain_email)
   \<and> map_sum id body_as_str (DoorDashReceipt ascii_lib two_plain_email)
       = Inr (Some (as_string (leaf_message ''text/plain'' ''7bit'' (lit ''second''))))
   \<and> map_sum id body_as_str (DeliverooReceipt ascii_lib two_plain_email)
       = Inr (Some (as_string (leaf_message ''text/plain'' ''7bit'' (lit ''second''))))"
proof -
  have ok: "list_all (readable ascii_lib) (multipart_messages two_plain_email)"
    by (simp add: two_plain_email_def readable_def has_content_type_def text_plain_def
          leaf_text_def leaf_message_def lit_def startswith_def)
  have last: "last_or None (map (\<lambda>l. Some (leaf_text ascii_lib l))
                  (filter text_plain (multipart_messages two_plain_email)))
          = Some (Inr (as_string (leaf_message ''text/plain'' ''7bit'' (lit ''second''))))"
    by (simp add: two_plain_email_def text_plain_def leaf_text_def leaf_message_def lit_def
          startswith_def)
  from last_text_plain_part_is_body [of ascii_lib two_plain_email] ok
  obtain r1 r2 where r: "DoorDashReceipt ascii_lib two_plain_email = Inr r1"
      "DeliverooReceipt ascii_lib two_plain_email = Inr r2"
    by blast
  from last_text_plain_part_is_body [of ascii_lib two_plain_email r1] r(1) last
  have "body_as_str r1 = Some (as_string (leaf_message ''text/plain'' ''7bit'' (lit ''second'')))"
    by (cases "body_as_str r1") simp_all
  moreover from last_text_plain_part_is_body [of ascii_lib two_plain_email r2] r(2) last
  have "body_as_str r2 = Some (as_string (leaf_message ''text/plain'' ''7bit'' (lit ''second'')))"
    by (cases "body_as_str r2") simp_all
  ultimately show ?thesis
    using ok r by simp
qed

text \<open>
  C9, as the program has it. Without a leaf whose \<^verbatim>\<open>Content-Type\<close> starts with
  \<^verbatim>\<open>text/plain\<close>, a constructor that returns leaves the body text \<open>None\<close> and
  \<^verbatim>\<open>parse\<close> raises \<open>AttributeError\<close> at the split; the constructor returns the
  receipt of default values when every leaf carries a \<^verbatim>\<open>Content-Type\<close> header, and
  raises \<open>TypeError\<close> or \<open>AttributeError\<close> otherwise. No receipt comes out of
  \<^verbatim>\<open>parse\<close>.
\<close>

theorem no_text_plain_part_fails:
  assumes "\<not> list_ex text_plain (multipart_messages email)"
  shows "(DoorDashReceipt L email = Inr r \<longrightarrow>
            body_as_str r = None \<and> DoorDash_parse L r = Inl AttributeError)
       \<and> (DeliverooReceipt L email = Inr r \<longrightarrow>
            body_as_str r = None \<and> Deliveroo_parse L r = Inl AttributeError)
       \<and> (if list_all has_content_type (multipart_messages email)
          then DoorDashReceipt L email = Inr (new_receipt DoorDash)
               \<and> DeliverooReceipt L email = Inr (new_receipt Deliveroo)
          else (DoorDashReceipt L email = Inl TypeError
                \<or> DoorDashReceipt L email = Inl AttributeError)
               \<and> (DeliverooReceipt L email = Inl TypeError
                  \<or> DeliverooReceipt L email = Inl AttributeError))"
proof -
  have none: "filter text_plain (multipart_messages email) = []"
    using assms by (rule filter_none)
  have dd: "body_as_str r = None \<and> DoorDash_parse L r = Inl AttributeError"
    if "DoorDashReceipt L email = Inr r"
    using DoorDash_init_loop_Inr [of L "new_receipt DoorDash" "multipart_messages email" r] that
    by (simp add: DoorDashReceipt_def none new_receipt_def DoorDash_parse_def)
  have del: "body_as_str r = None \<and> Deliveroo_parse L r = Inl AttributeError"
    if "DeliverooReceipt L email = Inr r"
    using Deliveroo_init_loop_Inr [of L "new_receipt Deliveroo" "multipart_messages email" r] that
    by (simp add: DeliverooReceipt_def none new_receipt_def Deliveroo_parse_def)
  have ret: "DoorDashReceipt L email = Inr (new_receipt DoorDash)
            \<and> DeliverooReceipt L email = Inr (new_receipt Deliveroo)"
    if "list_all has_content_type (multipart_messages email)"
    using that assms
    by (simp add: DoorDashReceipt_def DeliverooReceipt_def DoorDash_init_loop_no_text_plain
          Deliveroo_init_loop_no_text_plain)
  have raises: "(DoorDashReceipt L email = Inl TypeError
                \<or> DoorDashReceipt L email = Inl AttributeError)
               \<and> (DeliverooReceipt L email = Inl TypeError
                  \<or> DeliverooReceipt L email = Inl AttributeError)"
    if "\<not> list_all has_content_type (multipart_messages email)"
    using DoorDash_init_loop_raises [OF assms that, of L "new_receipt DoorDash"]
      Deliveroo_init_loop_raises [OF assms that, of L "new_receipt Deliveroo"]
    by (simp add: DoorDashReceipt_def DeliverooReceipt_def)
  from dd del ret raises show ?thesis by (simp split: if_splits)
qed
theorem no_text_plain_part_fails_witness:
  "\<not> list_ex text_plain (multipart_messages pdf_email)
   \<and> list_all has_content_type (multipart_messages pdf_email)
   \<and> DoorDashReceipt ascii_lib pdf_email = Inr (new_receipt DoorDash)
   \<and> DoorDash_parse ascii_lib (new_receipt DoorDash) = Inl AttributeError
   \<and> DeliverooReceipt ascii_lib pdf_email = Inr (new_receipt Deliveroo)
   \<and> Deliveroo_parse ascii_lib (new_receipt Deliveroo) = Inl AttributeError"
proof -
  have a: "\<not> list_ex text_plain (multipart_messages pdf_email)"
    and b: "list_all has_content_type (multipart_messages pdf_email)"
    by (simp_all add: pdf_email_def text_plain_def has_content_type_def leaf_message_def
          lit_def startswith_def)
  from no_text_plain_part_fails [OF a, of ascii_lib "new_receipt DoorDash"]
    no_text_plain_part_fails [OF a, of ascii_lib "new_receipt Deliveroo"] a b
  show ?thesis by simp
qed

text \<open>
  C9 as stated fails: the one part of a message that is not multipart is its payload
  string, no part has a content type that starts with \<^verbatim>\<open>text/plain\<close>, and the
  constructors raise \<open>TypeError\<close> instead of leaving the body text \<open>None\<close>.
\<close>

theorem no_text_plain_part_counterexample:
  "\<not> list_ex text_plain (multipart_messages bare_email)
   \<and> DoorDashReceipt ascii_lib bare_email = Inl TypeError
   \<and> DeliverooReceipt ascii_lib bare_email = Inl TypeError"
  by (simp add: bare_email_def text_plain_def DoorDashReceipt_def DeliverooReceipt_def)

text \<open>
  C5, on the code. The DoorDash constructor never assigns the separator: whatever the
  leaves decode to, parsing splits the body on the line feed. The Deliveroo constructor,
  from which it differs by that assignment alone, selects carriage return and line feed
  as soon as a quoted-printable \<^verbatim>\<open>text/plain\<close> leaf decodes to text that is not pure
  ASCII, and keeps it for every later leaf. For a message of one \<^verbatim>\<open>text/plain\<close> leaf
  whose text can be read, both constructors return with that text as the body: the
  quoted-printable decoding when the encoding starts with \<^verbatim>\<open>quoted-printable\<close>, the
  string form of the leaf otherwise.
\<close>

theorem line_separator_selection:
  "(DoorDashReceipt L email = Inr r \<longrightarrow> line_seperator r = [10])
   \<and> (DeliverooReceipt L email = Inr r \<longrightarrow>
        line_seperator r
          = (if list_ex (decodes_non_ascii L) (multipart_messages email)
             then [13, 10] else [10]))
   \<and> (multipart_messages email = [l] \<and> text_plain l \<and> leaf_text L l = Inr t \<longrightarrow>
        (\<exists>r'. DoorDashReceipt L email = Inr r' \<and> body_as_str r' = Some t
            \<and> line_seperator r' = [10])
        \<and> (\<exists>r'. DeliverooReceipt L email = Inr r' \<and> body_as_str r' = Some t
            \<and> line_seperator r'
                = (if quoted_printable l \<and> \<not> isascii t then [13, 10] else [10])))"
proof -
  have a: "line_seperator r = [10]" if "DoorDashReceipt L email = Inr r"
    using DoorDash_init_loop_Inr [of L "new_receipt DoorDash" "multipart_messages email" r] that
    by (simp add: DoorDashReceipt_def new_receipt_def)
  have b: "line_seperator r
          = (if list_ex (decodes_non_ascii L) (multipart_messages email)
             then [13, 10] else [10])" if "DeliverooReceipt L email = Inr r"
    using Deliveroo_init_loop_Inr [of L "new_receipt Deliveroo" "multipart_messages email" r] that
    by (simp add: DeliverooReceipt_def new_receipt_def)
  have c: "(\<exists>r'. DoorDashReceipt L email = Inr r' \<and> body_as_str r' = Some t
            \<and> line_seperator r' = [10])
        \<and> (\<exists>r'. DeliverooReceipt L email = Inr r' \<and> body_as_str r' = Some t
            \<and> line_seperator r'
                = (if quoted_printable l \<and> \<not> isascii t then [13, 10] else [10]))"
    if "multipart_messages email = [l]" "text_plain l" "leaf_text L l = Inr t"
    using that
    by (cases l)
       (auto simp: DoorDashReceipt_def DeliverooReceipt_def new_receipt_def text_plain_def
          leaf_text_def quoted_printable_def split: option.splits if_splits)
  from a b c show ?thesis by blast
qed

lemma cafe_facts:
  "text_plain (Msg cafe_message)" "quoted_printable (Msg cafe_message)"
  "leaf_text cafe_lib (Msg cafe_message) = Inr cafe_decoded"
  "\<not> isascii cafe_decoded"
  by (simp_all add: text_plain_def quoted_printable_def leaf_text_def cafe_lib_def
        cafe_message_def cafe_decoded_def isascii_def lit_def startswith_def ascii_lib_def)

theorem line_separator_selection_witness:
  "multipart_messages cafe_doordash_email = [Msg cafe_message]
   \<and> text_plain (Msg cafe_message) \<and> quoted_printable (Msg cafe_message)
   \<and> leaf_text cafe_lib (Msg cafe_message) = Inr cafe_decoded \<and> \<not> isascii cafe_decoded
   \<and> map_sum id (\<lambda>r. (body_as_str r, line_seperator r))
         (DoorDashReceipt cafe_lib cafe_doordash_email)
       = Inr (Some cafe_decoded, [10])
   \<and> map_sum id (\<lambda>r. (body_as_str r, line_seperator r)) (DeliverooReceipt cafe_lib cafe_email)
       = Inr (Some cafe_decoded, [13, 10])
   \<and> map_sum id (\<lambda>r. (body_as_str r, line_seperator r))
         (DeliverooReceipt cafe_lib cafe_then_plain_email)
       = Inr (Some (as_string (leaf_message ''text/plain'' ''7bit'' (lit ''  Total $1.00''))),
              [13, 10])"
proof -
  have m: "multipart_messages cafe_doordash_email = [Msg cafe_message]"
    and m': "multipart_messages cafe_email = [Msg cafe_message]"
    by (simp_all add: cafe_doordash_email_def cafe_email_def)
  have "\<exists>r'. DoorDashReceipt cafe_lib cafe_doordash_email = Inr r'
          \<and> body_as_str r' = Some cafe_decoded \<and> line_seperator r' = [10]"
    using line_separator_selection
            [of cafe_lib cafe_doordash_email "new_receipt DoorDash" "Msg cafe_message"
                cafe_decoded]
          m cafe_facts
    by simp
  then obtain r1 where r1: "DoorDashReceipt cafe_lib cafe_doordash_email = Inr r1"
    "body_as_str r1 = Some cafe_decoded" "line_seperator r1 = [10]"
    by blast
  have "\<exists>r'. DeliverooReceipt cafe_lib cafe_email = Inr r'
          \<and> body_as_str r' = Some cafe_decoded \<and> line_seperator r' = [13, 10]"
    using line_separator_selection
            [of cafe_lib cafe_email "new_receipt Deliveroo" "Msg cafe_message" cafe_decoded]
          m' cafe_facts
    by simp
  then obtain r2 where r2: "DeliverooReceipt cafe_lib cafe_email = Inr r2"
    "body_as_str r2 = Some cafe_decoded" "line_seperator r2 = [13, 10]"
    by blast
  have q: "quopri_utf8 cafe_lib (as_string cafe_message) = Inr cafe_decoded"
    by (simp add: cafe_lib_def)
  have h: "header_content_type cafe_message = Some (lit ''text/plain; charset=utf-8'')"
    "header_transfer_encoding cafe_message = Some (lit ''quoted-printable'')"
    by (simp_all add: cafe_message_def)
  have p: "startswith (lit ''text/plain; charset=utf-8'') (lit ''text/plain'')"
    "startswith (lit ''quoted-printable'') (lit ''quoted-printable'')"
    "startswith (lit ''text/plain'') (lit ''text/plain'')"
    "\<not> startswith (lit ''7bit'') (lit ''quoted-printable'')"
    by (simp_all add: lit_def startswith_def)
  have r3: "map_sum id (\<lambda>r. (body_as_str r, line_seperator r))
         (DeliverooReceipt cafe_lib cafe_then_plain_email)
       = Inr (Some (as_string (leaf_message ''text/plain'' ''7bit'' (lit ''  Total $1.00''))),
              [13, 10])"
    using cafe_facts(4)
    by (simp add: DeliverooReceipt_def cafe_then_plain_email_def h q p leaf_message_def
          new_receipt_def)
  from m cafe_facts r1 r2 r3 show ?thesis by simp
qed

section \<open>Dispatch\<close>













section \<open>Uber Eats without an amount\<close>

text \<open>
  C2, on the code. When no table cell (\<^verbatim>\<open>bak/parse.py\<close>) or no place of the body
  (\<^verbatim>\<open>takeout_calc/parse.py\<close>) matches the currency pattern, \<^verbatim>\<open>parse_amount\<close> prints the
  notice and then raises \<open>IndexError\<close> on the first element of the empty list;
  \<^verbatim>\<open>parse\<close> raises it too, and so does the loop over the mailbox, whatever messages
  follow.
\<close>

theorem uber_no_amount_raises:
  "UberReceipt_parse_amount L (r\<lparr>soup := []\<rparr>) = ([Unable_to_find_total], Inl IndexError)
   \<and> UberReceipt_parse L (r\<lparr>soup := []\<rparr>) = ([Unable_to_find_total], Inl IndexError)
   \<and> (re_currency_sign L text = [] \<longrightarrow>
        UberReceipt_min_parse_amount L (r\<lparr>body_text := Some text\<rparr>)
          = ([Unable_to_find_total], Inl IndexError)
        \<and> UberReceipt_min_parse L (r\<lparr>body_text := Some text\<rparr>)
          = ([Unable_to_find_total], Inl IndexError))
   \<and> (AbstractEmail L email_obj = Inr email \<and> select_receipt L email = ([], Inr (Some u))
        \<and> provider u = Uber_Eats \<and> soup u = [] \<longrightarrow>
        parse_loop L n i tot (email_obj # rest) = ([Unable_to_find_total], Inl IndexError))
   \<and> (AbstractEmail L email_obj = Inr email \<and> select_receipt_min L email = ([], Inr (Some u))
        \<and> provider u = Uber_Eats \<and> body_text u = Some text \<and> re_currency_sign L text = [] \<longrightarrow>
        main_loop L n i tot (email_obj # rest) = ([Unable_to_find_total], Inl IndexError))"
  by (simp add: UberReceipt_parse_amount_def UberReceipt_parse_def
        UberReceipt_min_parse_amount_def UberReceipt_min_parse_def
        receipt_parse_def receipt_parse_min_def Let_def)
lemma thanks_mail_normalized: "AbstractEmail thanks_lib thanks_mail = Inr thanks_email"
  by (simp add: AbstractEmail_def thanks_mail_def thanks_email_def thanks_lib_def
        read_email_text_def get_html_text_def lit_def startswith_def Let_def)

lemma thanks_no_amount: "re_currency_sign thanks_lib (lit ''<p>Thanks</p>'') = []"
  by (simp add: re_currency_sign_def currency_sign_at_def thanks_lib_def ascii_lib_def lit_def)

theorem uber_no_amount_raises_witness:
  "AbstractEmail thanks_lib thanks_mail = Inr thanks_email
   \<and> re_currency_sign thanks_lib (lit ''<p>Thanks</p>'') = []
   \<and> parse thanks_lib [thanks_mail, unknown_mail] [] = ([Unable_to_find_total], Inl IndexError)
   \<and> main thanks_lib [thanks_mail, unknown_mail] = ([Unable_to_find_total], Inl IndexError)"
proof -
  have uber: "str_in (lit ''uber'') (lit ''orders@uber.com'')"
    by (simp add: lit_def startswith_def)
  have sd: "sender thanks_email = Some (lit ''orders@uber.com'')"
    by (simp add: thanks_email_def)
  have u: "UberReceipt thanks_lib thanks_email =
             Inr ((new_receipt Uber_Eats)
                    \<lparr>body_text := Some (lit ''<p>Thanks</p>''), soup := [],
                       body_as_str := Some (lit ''<p>Thanks</p>'')\<rparr>)"
    by (simp add: UberReceipt_def thanks_email_def thanks_mail_def thanks_lib_def Let_def)
       (simp add: lit_def startswith_def)
  have sel: "select_receipt thanks_lib thanks_email =
       ([], Inr (Some ((new_receipt Uber_Eats)
                    \<lparr>body_text := Some (lit ''<p>Thanks</p>''), soup := [],
                       body_as_str := Some (lit ''<p>Thanks</p>'')\<rparr>)))"
    using uber sd by (simp add: select_receipt_def u)
  have um: "UberReceipt_min thanks_email =
             Inr ((new_receipt Uber_Eats)\<lparr>body_text := Some (lit ''<p>Thanks</p>'')\<rparr>)"
    by (simp add: UberReceipt_min_def thanks_email_def)
  have sel_min: "select_receipt_min thanks_lib thanks_email =
       ([], Inr (Some ((new_receipt Uber_Eats)\<lparr>body_text := Some (lit ''<p>Thanks</p>'')\<rparr>)))"
    using uber sd by (simp add: select_receipt_min_def um)
  note inst = uber_no_amount_raises
    [of thanks_lib _ "lit ''<p>Thanks</p>''" thanks_mail thanks_email _ _ _ _ "[unknown_mail]"]
  have "parse_loop thanks_lib (length [thanks_mail, unknown_mail]) 0 Decimal_0
          [thanks_mail, unknown_mail]
          = ([Unable_to_find_total], Inl IndexError)"
    using inst [of _ "(new_receipt Uber_Eats)
                    \<lparr>body_text := Some (lit ''<p>Thanks</p>''), soup := [],
                       body_as_str := Some (lit ''<p>Thanks</p>'')\<rparr>"
                  "length [thanks_mail, unknown_mail]" 0 Decimal_0]
      thanks_mail_normalized sel
    by (simp add: new_receipt_def)
  then have p: "parse thanks_lib [thanks_mail, unknown_mail] []
                  = ([Unable_to_find_total], Inl IndexError)"
    by (simp only: parse_def) simp
  have "main_loop thanks_lib (length [thanks_mail, unknown_mail]) 0 Decimal_0
          [thanks_mail, unknown_mail]
          = ([Unable_to_find_total], Inl IndexError)"
    using inst [of _ "(new_receipt Uber_Eats)\<lparr>body_text := Some (lit ''<p>Thanks</p>'')\<rparr>"
                  "length [thanks_mail, unknown_mail]" 0 Decimal_0]
      thanks_mail_normalized sel_min thanks_no_amount
    by (simp add: new_receipt_def)
  then have m: "main thanks_lib [thanks_mail, unknown_mail]
                  = ([Unable_to_find_total], Inl IndexError)"
    by (simp only: main_def) simp
  from p m show ?thesis
    by (simp only: thanks_mail_normalized thanks_no_amount)
qed
section \<open>Flattening\<close>

lemma get_email_messages_append:
  "get_email_messages (xs @ ys) = get_email_messages xs @ get_email_messages ys"
  by (induction xs rule: get_email_messages.induct) simp_all

lemma get_email_messages_leaves: "get_email_messages (map Leaf ms) = ms"
  by (induction ms) simp_all

text \<open>
  C7. Flattening is depth-first and left-to-right: the leaves of a nested list or of a
  multipart message are spliced in where it stands, between those of the items before
  and after it. On a list of leaves alone it returns that list, in its order, so
  flattening what flattening returned changes nothing.
\<close>

theorem flatten_depth_first_idempotent:
  "get_email_messages (map Leaf ms) = ms
   \<and> get_email_messages (map Leaf (get_email_messages ps)) = get_email_messages ps
   \<and> get_email_messages (xs @ Seq ps # ys)
       = get_email_messages xs @ get_email_messages ps @ get_email_messages ys
   \<and> get_email_messages (xs @ Multi ps # ys)
       = get_email_messages xs @ get_email_messages ps @ get_email_messages ys
   \<and> get_email_messages (xs @ Leaf m # ys)
       = get_email_messages xs @ m # get_email_messages ys"
  by (simp add: get_email_messages_leaves get_email_messages_append)

theorem flatten_depth_first_idempotent_witness:
  "get_email_messages
     [Leaf (leaf_message ''text/plain'' ''7bit'' (lit ''a'')),
      Multi [Seq [Leaf (leaf_message ''text/html'' ''7bit'' (lit ''b''))],
             Leaf (leaf_message ''text/plain'' ''7bit'' (lit ''c''))],
      Leaf (leaf_message ''text/plain'' ''7bit'' (lit ''d''))]
   = [leaf_message ''text/plain'' ''7bit'' (lit ''a''),
      leaf_message ''text/html'' ''7bit'' (lit ''b''),
      leaf_message ''text/plain'' ''7bit'' (lit ''c''),
      leaf_message ''text/plain'' ''7bit'' (lit ''d'')]"
  using flatten_depth_first_idempotent
    [of "[]" "[Seq [Leaf (leaf_message ''text/html'' ''7bit'' (lit ''b''))],
             Leaf (leaf_message ''text/plain'' ''7bit'' (lit ''c''))]"
        "[Leaf (leaf_message ''text/plain'' ''7bit'' (lit ''a''))]"
        "[Leaf (leaf_message ''text/plain'' ''7bit'' (lit ''d''))]"]
  by simp

section \<open>Leaf classification and HTML rendering\<close>







end
